theory Spec2Isabelle
  imports Main
begin

section \<open>Paths and the filesystem\<close>

text \<open>
  A path is the list of its parts, as \<^verbatim>\<open>pathlib.PurePosixPath.parts\<close> gives them: an
  absolute path starts with its root, \<^verbatim>\<open>/\<close> (or \<^verbatim>\<open>//\<close> when the text starts with
  exactly two slashes). \<open>Path\<close> parses the text of a form field, dropping empty and
  \<^verbatim>\<open>.\<close> components; \<open>joinpath\<close> is the \<^verbatim>\<open>/\<close> operator applied to a single
  component, the only way the program uses it; \<open>path_name\<close> is \<^verbatim>\<open>.name\<close> and
  \<open>str_path\<close> is \<^verbatim>\<open>str()\<close>.
\<close>

type_synonym path = "string list"

fun split_sep :: "string \<Rightarrow> string list" where
  "split_sep [] = [[]]"
| "split_sep (c # cs) =
     (if c = CHR ''/'' then [] # split_sep cs
      else (case split_sep cs of [] \<Rightarrow> [[c]] | w # ws \<Rightarrow> (c # w) # ws))"

fun path_root :: "string \<Rightarrow> string" where
  "path_root (c # d # x # rest) =
     (if c = CHR ''/'' then (if d = CHR ''/'' \<and> x \<noteq> CHR ''/'' then ''//'' else ''/'') else [])"
| "path_root [c, d] =
     (if c = CHR ''/'' then (if d = CHR ''/'' then ''//'' else ''/'') else [])"
| "path_root [c] = (if c = CHR ''/'' then ''/'' else [])"
| "path_root [] = []"

definition Path :: "string \<Rightarrow> path" where
  "Path s =
     (if path_root s = [] then [] else [path_root s])
     @ filter (\<lambda>w. w \<noteq> [] \<and> w \<noteq> ''.'') (split_sep s)"

definition joinpath :: "path \<Rightarrow> string \<Rightarrow> path" where
  "joinpath p name = p @ [name]"

definition path_name :: "path \<Rightarrow> string" where
  "path_name p = (if p = [] \<or> p = [''/''] \<or> p = [''//''] then [] else last p)"

fun join_sep :: "string list \<Rightarrow> string" where
  "join_sep [] = []"
| "join_sep [w] = w"
| "join_sep (w # ws) = w @ ''/'' @ join_sep ws"

definition str_path :: "path \<Rightarrow> string" where
  "str_path p =
     (case p of
        [] \<Rightarrow> ''.''
      | r # ps \<Rightarrow> if r = ''/'' \<or> r = ''//'' then r @ join_sep ps else join_sep p)"

text \<open>
  The filesystem says, for each path, what is there and whether the operating system
  lets the program look. At a path there is nothing, a regular file, or a directory with
  the names of its entries in the order the operating system lists them. A regular file
  is \<open>File cs\<close>, with \<open>cs\<close> its contents decoded in the locale's encoding, or
  \<open>Unreadable m\<close> when opening or decoding it raises an error with text \<open>m\<close>
  (\<^verbatim>\<open>PermissionError\<close>, \<^verbatim>\<open>UnicodeDecodeError\<close>). \<open>stat_error\<close> gives the text of the
  \<^verbatim>\<open>OSError\<close> that \<^verbatim>\<open>stat\<close> raises for a path when that is neither "no such file"
  nor "not a directory": a name that is too long, a directory that may not be searched.
\<close>

datatype node = File string | Unreadable string | Dir "string list"

record filesystem =
  nodes :: "path \<Rightarrow> node option"
  stat_error :: "path \<Rightarrow> string option"

datatype exn =
    Exception string
  | BaseException string
  | IsADirectoryError path
  | FileNotFoundError path

text \<open>
  \<open>Exception m\<close> stands for any instance of Python's \<^verbatim>\<open>Exception\<close> raised by code outside
  this file (a handler, the logger, \<^verbatim>\<open>pathlib\<close>), with \<open>m\<close> its \<^verbatim>\<open>str()\<close>;
  \<open>BaseException m\<close> for an instance of \<^verbatim>\<open>BaseException\<close> that is not an
  \<^verbatim>\<open>Exception\<close> (\<^verbatim>\<open>SystemExit\<close>, \<^verbatim>\<open>KeyboardInterrupt\<close>,
  \<^verbatim>\<open>asyncio.CancelledError\<close>). The two named \<^verbatim>\<open>OSError\<close>s are raised by
  \<^verbatim>\<open>read_text()\<close> on a directory and on a missing file.
\<close>

fun is_Exception :: "exn \<Rightarrow> bool" where
  "is_Exception (BaseException m) = False"
| "is_Exception e = True"

definition quoted :: "string \<Rightarrow> string" where
  "quoted s = [CHR 0x27] @ s @ [CHR 0x27]"

fun str_exn :: "exn \<Rightarrow> string" where
  "str_exn (Exception m) = m"
| "str_exn (BaseException m) = m"
| "str_exn (IsADirectoryError p) = ''[Errno 21] Is a directory: '' @ quoted (str_path p)"
| "str_exn (FileNotFoundError p) =
     ''[Errno 2] No such file or directory: '' @ quoted (str_path p)"

text \<open>
  \<^verbatim>\<open>Path.exists()\<close>, \<^verbatim>\<open>Path.is_file()\<close> and \<^verbatim>\<open>Path.is_dir()\<close> call \<^verbatim>\<open>stat\<close>: they
  answer false when nothing is there and raise the \<^verbatim>\<open>OSError\<close> when \<^verbatim>\<open>stat\<close> fails
  otherwise.
\<close>

definition exists_path :: "filesystem \<Rightarrow> path \<Rightarrow> exn + bool" where
  "exists_path fs p =
     (case stat_error fs p of
        Some m \<Rightarrow> Inl (Exception m)
      | None \<Rightarrow> Inr (nodes fs p \<noteq> None))"

definition is_file :: "filesystem \<Rightarrow> path \<Rightarrow> exn + bool" where
  "is_file fs p =
     (case stat_error fs p of
        Some m \<Rightarrow> Inl (Exception m)
      | None \<Rightarrow>
          Inr (case nodes fs p of
                 Some (File cs) \<Rightarrow> True
               | Some (Unreadable m) \<Rightarrow> True
               | _ \<Rightarrow> False))"

definition is_dir :: "filesystem \<Rightarrow> path \<Rightarrow> exn + bool" where
  "is_dir fs p =
     (case stat_error fs p of
        Some m \<Rightarrow> Inl (Exception m)
      | None \<Rightarrow> Inr (case nodes fs p of Some (Dir ns) \<Rightarrow> True | _ \<Rightarrow> False))"

text \<open>Text mode with the default \<^verbatim>\<open>newline=None\<close>: on reading, \<^verbatim>\<open>\r\n\<close> and a lone
  \<^verbatim>\<open>\r\<close> become \<^verbatim>\<open>\n\<close>.\<close>

fun universal_newlines :: "string \<Rightarrow> string" where
  "universal_newlines (c # d # cs) =
     (if c = CHR 0x0D then
        (if d = CHR 0x0A then CHR 0x0A # universal_newlines cs
         else CHR 0x0A # universal_newlines (d # cs))
      else c # universal_newlines (d # cs))"
| "universal_newlines [c] = (if c = CHR 0x0D then [CHR 0x0A] else [c])"
| "universal_newlines [] = []"

definition read_text :: "filesystem \<Rightarrow> path \<Rightarrow> exn + string" where
  "read_text fs p =
     (case stat_error fs p of
        Some m \<Rightarrow> Inl (Exception m)
      | None \<Rightarrow>
          (case nodes fs p of
             None \<Rightarrow> Inl (FileNotFoundError p)
           | Some (Dir ns) \<Rightarrow> Inl (IsADirectoryError p)
           | Some (Unreadable m) \<Rightarrow> Inl (Exception m)
           | Some (File cs) \<Rightarrow> Inr (universal_newlines cs)))"

definition ends_with :: "string \<Rightarrow> string \<Rightarrow> bool" where
  "ends_with suf s = (length suf \<le> length s \<and> drop (length s - length suf) s = suf)"

text \<open>\<^verbatim>\<open>p.glob("*.md")\<close>: the entries of the directory \<open>p\<close> whose name ends in
  \<^verbatim>\<open>.md\<close>, whatever they are; nothing when \<open>p\<close> is absent or not a directory. The
  program calls it only on a path that \<^verbatim>\<open>exists()\<close> or \<^verbatim>\<open>is_dir()\<close> has just
  accepted.\<close>

definition glob_md :: "filesystem \<Rightarrow> path \<Rightarrow> path list" where
  "glob_md fs p =
     (case nodes fs p of
        Some (Dir ns) \<Rightarrow> map (joinpath p) (filter (ends_with ''.md'') ns)
      | _ \<Rightarrow> [])"

section \<open>What the page shows\<close>

text \<open>
  The elements a page adds below its form, in order. An expander holds the elements
  rendered inside its \<^verbatim>\<open>with\<close> block. The arguments of a download button are its label,
  data, file name and MIME type. Headers, form widgets, columns and the spinner are
  layout only and are left out.
\<close>

datatype element =
    Error string
  | Success string
  | Markdown string
  | Info string
  | Code string
  | Download_button string string string string
  | Expander string "element list"

definition cross_mark :: string where
  "cross_mark = [CHR 0xE2, CHR 0x9D, CHR 0x8C]"

definition check_mark :: string where
  "check_mark = [CHR 0xE2, CHR 0x9C, CHR 0x85]"

definition page_icon :: string where
  "page_icon = [CHR 0xF0, CHR 0x9F, CHR 0x93, CHR 0x84]"

definition memo_icon :: string where
  "memo_icon = [CHR 0xF0, CHR 0x9F, CHR 0x93, CHR 0x9D]"

definition down_arrow :: string where
  "down_arrow = [CHR 0xE2, CHR 0xAC, CHR 0x87, CHR 0xEF, CHR 0xB8, CHR 0x8F]"

section \<open>Session state, widgets and configuration objects\<close>

record session_state =
  analysis_running :: bool
  analysis_complete :: bool
  generated_files :: "path list"

text \<open>\<^verbatim>\<open>st.session_state\<close> before \<^verbatim>\<open>init_session_state\<close>: each key may be missing.\<close>

record session_store =
  analysis_running_key :: "bool option"
  analysis_complete_key :: "bool option"
  generated_files_key :: "path list option"

definition init_session_state :: "session_store \<Rightarrow> session_state" where
  "init_session_state st =
     \<lparr>analysis_running = (case analysis_running_key st of None \<Rightarrow> False | Some b \<Rightarrow> b),
      analysis_complete = (case analysis_complete_key st of None \<Rightarrow> False | Some b \<Rightarrow> b),
      generated_files = (case generated_files_key st of None \<Rightarrow> [] | Some fs \<Rightarrow> fs)\<rparr>"

text \<open>
  \<^verbatim>\<open>st.number_input(min_value, max_value, value)\<close> holds \<open>value\<close> until the user enters a
  number; an entry outside the permitted range is refused by the widget.
  \<^verbatim>\<open>st.selectbox(options, index)\<close> holds \<open>options[index]\<close> until the user picks one of the
  options offered.
\<close>

definition number_input :: "int \<Rightarrow> int \<Rightarrow> int \<Rightarrow> int option \<Rightarrow> int" where
  "number_input min_value max_value val entry =
     (case entry of
        None \<Rightarrow> val
      | Some v \<Rightarrow> if min_value \<le> v \<and> v \<le> max_value then v else val)"

definition selectbox :: "string list \<Rightarrow> nat \<Rightarrow> nat option \<Rightarrow> string" where
  "selectbox options index choice =
     (case choice of
        None \<Rightarrow> options ! index
      | Some i \<Rightarrow> if i < length options then options ! i else options ! index)"

text \<open>The field \<open>repo_path\<close>, common to the three configuration classes, is declared
  once.\<close>

record HandlerConfig =
  repo_path :: path

record AnalyzeHandlerConfig = HandlerConfig +
  exclude_code_structure :: bool
  exclude_dependencies :: bool
  exclude_data_flow :: bool
  exclude_request_flow :: bool
  exclude_api_analysis :: bool
  max_workers :: int

record ReadmeHandlerConfig = HandlerConfig +
  use_existing_readme :: bool
  exclude_project_overview :: bool
  exclude_table_of_contents :: bool
  exclude_architecture :: bool
  exclude_c4_model :: bool
  exclude_repository_structure :: bool
  exclude_dependencies_and_integration :: bool
  exclude_api_documentation :: bool
  exclude_development_notes :: bool
  exclude_known_issues_and_limitations :: bool
  exclude_additional_documentation :: bool

record AIRulesHandlerConfig = HandlerConfig +
  skip_existing_claude_md :: bool
  skip_existing_agents_md :: bool
  skip_existing_cursor_rules :: bool
  detail_level :: string
  max_claude_lines :: int
  max_agents_lines :: int

text \<open>
  What the user submitted on each page: the text of the path field, the state of each
  checkbox, the number entered in a number field (if any), the option picked (if any),
  and whether the button was pressed. The fields carry the names of the page's local
  variables, prefixed by the page.
\<close>

record analyze_form =
  a_repo_path :: string
  a_max_workers :: "int option"
  a_exclude_structure :: bool
  a_exclude_dependencies :: bool
  a_exclude_data_flow :: bool
  a_exclude_request_flow :: bool
  a_exclude_api :: bool
  a_button :: bool

record readme_form =
  r_repo_path :: string
  r_use_existing :: bool
  r_exclude_overview :: bool
  r_exclude_toc :: bool
  r_exclude_architecture :: bool
  r_exclude_c4 :: bool
  r_exclude_structure :: bool
  r_exclude_dependencies :: bool
  r_exclude_api :: bool
  r_exclude_dev_notes :: bool
  r_exclude_issues :: bool
  r_button :: bool

record ai_rules_form =
  g_repo_path :: string
  g_skip_claude :: bool
  g_skip_agents :: bool
  g_skip_cursor :: bool
  g_detail_level :: "nat option"
  g_max_claude_lines :: "int option"
  g_max_agents_lines :: "int option"
  g_button :: bool

definition analyze_config :: "analyze_form \<Rightarrow> AnalyzeHandlerConfig" where
  "analyze_config f =
     \<lparr>repo_path = Path (a_repo_path f),
      exclude_code_structure = a_exclude_structure f,
      exclude_dependencies = a_exclude_dependencies f,
      exclude_data_flow = a_exclude_data_flow f,
      exclude_request_flow = a_exclude_request_flow f,
      exclude_api_analysis = a_exclude_api f,
      max_workers = number_input 0 20 0 (a_max_workers f)\<rparr>"

definition readme_config :: "readme_form \<Rightarrow> ReadmeHandlerConfig" where
  "readme_config f =
     \<lparr>repo_path = Path (r_repo_path f),
      use_existing_readme = r_use_existing f,
      exclude_project_overview = r_exclude_overview f,
      exclude_table_of_contents = r_exclude_toc f,
      exclude_architecture = r_exclude_architecture f,
      exclude_c4_model = r_exclude_c4 f,
      exclude_repository_structure = r_exclude_structure f,
      exclude_dependencies_and_integration = r_exclude_dependencies f,
      exclude_api_documentation = r_exclude_api f,
      exclude_development_notes = r_exclude_dev_notes f,
      exclude_known_issues_and_limitations = r_exclude_issues f,
      exclude_additional_documentation = False\<rparr>"

definition ai_rules_config :: "ai_rules_form \<Rightarrow> AIRulesHandlerConfig" where
  "ai_rules_config f =
     \<lparr>repo_path = Path (g_repo_path f),
      skip_existing_claude_md = g_skip_claude f,
      skip_existing_agents_md = g_skip_agents f,
      skip_existing_cursor_rules = g_skip_cursor f,
      detail_level =
        selectbox [''minimal'', ''standard'', ''comprehensive''] 1 (g_detail_level f),
      max_claude_lines = number_input 100 2000 500 (g_max_claude_lines f),
      max_agents_lines = number_input 50 500 150 (g_max_agents_lines f)\<rparr>"

section \<open>The handlers and the logger\<close>

text \<open>
  The handlers and the logger are not part of this file: they are parameters. A handler
  call either returns or raises, and leaves a filesystem behind in both cases;
  \<^verbatim>\<open>Logger.error\<close> returns or raises.
\<close>

record env =
  AnalyzeHandler_handle :: "AnalyzeHandlerConfig \<Rightarrow> filesystem \<Rightarrow> exn option \<times> filesystem"
  ReadmeHandler_handle :: "ReadmeHandlerConfig \<Rightarrow> filesystem \<Rightarrow> exn option \<times> filesystem"
  AIRulesHandler_handle :: "AIRulesHandlerConfig \<Rightarrow> filesystem \<Rightarrow> exn option \<times> filesystem"
  Logger_error :: "string \<Rightarrow> exn option"

definition run_analysis ::
  "env \<Rightarrow> path \<Rightarrow> AnalyzeHandlerConfig \<Rightarrow> filesystem \<Rightarrow> exn option \<times> filesystem" where
  "run_analysis ev repo config_obj fs = AnalyzeHandler_handle ev config_obj fs"

definition run_readme_generation ::
  "env \<Rightarrow> path \<Rightarrow> ReadmeHandlerConfig \<Rightarrow> filesystem \<Rightarrow> exn option \<times> filesystem" where
  "run_readme_generation ev repo config_obj fs = ReadmeHandler_handle ev config_obj fs"

definition run_ai_rules_generation ::
  "env \<Rightarrow> path \<Rightarrow> AIRulesHandlerConfig \<Rightarrow> filesystem \<Rightarrow> exn option \<times> filesystem" where
  "run_ai_rules_generation ev repo config_obj fs = AIRulesHandler_handle ev config_obj fs"

text \<open>\<^verbatim>\<open>try: Logger.error(msg) except: pass\<close>: the bare \<^verbatim>\<open>except\<close> takes every exception,
  so nothing leaves the block.\<close>

definition try_log :: "env \<Rightarrow> string \<Rightarrow> exn option" where
  "try_log ev msg = (case Logger_error ev msg of None \<Rightarrow> None | Some le \<Rightarrow> None)"

section \<open>The page controllers\<close>

text \<open>
  The outcome of one run of a page function: the exception that left it (if any), the
  session state and the filesystem it leaves, the elements it rendered, the
  configuration objects it passed to its handler, and the messages it passed to the
  logger.
\<close>

record 'c page_result =
  raised :: "exn option"
  session :: session_state
  fs_after :: filesystem
  rendered :: "element list"
  handler_calls :: "'c list"
  log_calls :: "string list"

definition path_error :: "string \<Rightarrow> element" where
  "path_error repo = Error (cross_mark @ '' Repository path does not exist: '' @ repo)"

text \<open>The test \<^verbatim>\<open>Path(repo_path).exists()\<close> of each page stands before its
  \<^verbatim>\<open>try\<close>: an error it raises leaves the page function.\<close>

definition path_test_raised :: "exn \<Rightarrow> session_state \<Rightarrow> filesystem \<Rightarrow> 'c page_result" where
  "path_test_raised e s fs =
     \<lparr>raised = Some e, session = s, fs_after = fs, rendered = [],
      handler_calls = [], log_calls = []\<rparr>"

subsection \<open>Analyze\<close>

fun display_generated_files :: "filesystem \<Rightarrow> path list \<Rightarrow> exn option \<times> element list" where
  "display_generated_files fs [] = (None, [])"
| "display_generated_files fs (file_path # rest) =
     (case read_text fs file_path of
        Inl e \<Rightarrow> (Some e, [Expander (memo_icon @ '' '' @ path_name file_path) []])
      | Inr content \<Rightarrow>
          (case display_generated_files fs rest of
             (r, es) \<Rightarrow>
               (r, Expander (memo_icon @ '' '' @ path_name file_path)
                     [Markdown content,
                      Download_button (down_arrow @ '' Download'') content
                        (path_name file_path) ''text/markdown'']
                   # es)))"

definition display_results :: "session_state \<Rightarrow> filesystem \<Rightarrow> exn option \<times> element list" where
  "display_results s fs =
     (if analysis_complete s \<and> generated_files s \<noteq> [] then
        (case display_generated_files fs (generated_files s) of
           (r, es) \<Rightarrow> (r, Markdown (''### '' @ page_icon @ '' Generated Analysis Files'') # es))
      else (None, []))"

text \<open>
  The \<^verbatim>\<open>except Exception as e\<close> block of the Analyze page, entered from the session
  state \<open>s\<close> that the \<^verbatim>\<open>try\<close> block had reached, and the display of results that
  follows it. An exception outside \<^verbatim>\<open>Exception\<close> is not taken by the block and leaves
  the page.
\<close>

definition analyze_except ::
  "env \<Rightarrow> session_state \<Rightarrow> filesystem \<Rightarrow> AnalyzeHandlerConfig \<Rightarrow> exn
     \<Rightarrow> AnalyzeHandlerConfig page_result" where
  "analyze_except ev s fs1 config_obj e =
     (if is_Exception e then
        let s2 = s\<lparr>analysis_running := False\<rparr>;
            error_msg = cross_mark @ '' Analysis failed: '' @ str_exn e
        in (case try_log ev (''Analysis error: '' @ str_exn e) of
              Some le \<Rightarrow>
                \<lparr>raised = Some le, session = s2, fs_after = fs1,
                 rendered = [Error error_msg], handler_calls = [config_obj],
                 log_calls = [''Analysis error: '' @ str_exn e]\<rparr>
            | None \<Rightarrow>
                (case display_results s2 fs1 of
                   (r, es) \<Rightarrow>
                     \<lparr>raised = r, session = s2, fs_after = fs1,
                      rendered = Error error_msg # es,
                      handler_calls = [config_obj],
                      log_calls = [''Analysis error: '' @ str_exn e]\<rparr>))
      else
        \<lparr>raised = Some e, session = s, fs_after = fs1, rendered = [],
         handler_calls = [config_obj], log_calls = []\<rparr>)"

definition analyze_page ::
  "analyze_form \<Rightarrow> session_state \<Rightarrow> filesystem \<Rightarrow> env \<Rightarrow> AnalyzeHandlerConfig page_result" where
  "analyze_page f s fs ev =
     (if a_button f then
        (case exists_path fs (Path (a_repo_path f)) of
           Inl e \<Rightarrow> path_test_raised e s fs
         | Inr found \<Rightarrow>
             if \<not> found then
               \<lparr>raised = None, session = s, fs_after = fs,
                rendered = [path_error (a_repo_path f)], handler_calls = [],
                log_calls = []\<rparr>
             else
               let s1 = s\<lparr>analysis_running := True, analysis_complete := False\<rparr>;
                   config_obj = analyze_config f
               in (case run_analysis ev (Path (a_repo_path f)) config_obj fs of
                     (None, fs1) \<Rightarrow>
                       let s2 = s1\<lparr>analysis_running := False, analysis_complete := True\<rparr>;
                           docs_path =
                             joinpath (joinpath (Path (a_repo_path f)) ''.ai'') ''docs''
                       in (case exists_path fs1 docs_path of
                             Inl e \<Rightarrow> analyze_except ev s2 fs1 config_obj e
                           | Inr docs_found \<Rightarrow>
                               let s3 = (if docs_found
                                         then s2\<lparr>generated_files := glob_md fs1 docs_path\<rparr>
                                         else s2)
                               in (case display_results s3 fs1 of
                                     (r, es) \<Rightarrow>
                                       \<lparr>raised = r, session = s3, fs_after = fs1,
                                        rendered =
                                          Success (check_mark
                                            @ '' Analysis completed successfully!'') # es,
                                        handler_calls = [config_obj], log_calls = []\<rparr>))
                   | (Some e, fs1) \<Rightarrow> analyze_except ev s1 fs1 config_obj e))
      else
        (case display_results s fs of
           (r, es) \<Rightarrow>
             \<lparr>raised = r, session = s, fs_after = fs, rendered = es,
              handler_calls = [], log_calls = []\<rparr>))"

subsection \<open>Readme\<close>

definition show_readme :: "filesystem \<Rightarrow> path \<Rightarrow> exn option \<times> element list" where
  "show_readme fs readme_path =
     (case exists_path fs readme_path of
        Inl e \<Rightarrow> (Some e, [])
      | Inr found \<Rightarrow>
          if found then
            (case read_text fs readme_path of
               Inl e \<Rightarrow> (Some e, [Markdown (''### '' @ page_icon @ '' Generated README.md'')])
             | Inr content \<Rightarrow>
                 (None,
                  [Markdown (''### '' @ page_icon @ '' Generated README.md''),
                   Markdown content,
                   Download_button (down_arrow @ '' Download README.md'') content
                     ''README.md'' ''text/markdown'']))
          else (None, []))"

text \<open>
  The \<^verbatim>\<open>except Exception as e\<close> block of the Readme and AI Rules pages, entered with the
  elements rendered so far: an exception outside \<^verbatim>\<open>Exception\<close> is not taken by it and
  leaves the page.
\<close>

definition except_Exception ::
  "string \<Rightarrow> string \<Rightarrow> env \<Rightarrow> session_state \<Rightarrow> filesystem \<Rightarrow> 'c \<Rightarrow> element list \<Rightarrow> exn
     \<Rightarrow> 'c page_result" where
  "except_Exception failed_text log_text ev s fs1 config_obj es e =
     (if is_Exception e then
        let error_msg = cross_mark @ failed_text @ str_exn e;
            swallowed = try_log ev (log_text @ str_exn e)
        in \<lparr>raised = swallowed, session = s, fs_after = fs1,
            rendered = es @ [Error error_msg],
            handler_calls = [config_obj], log_calls = [log_text @ str_exn e]\<rparr>
      else
        \<lparr>raised = Some e, session = s, fs_after = fs1, rendered = es,
         handler_calls = [config_obj], log_calls = []\<rparr>)"

definition readme_page ::
  "readme_form \<Rightarrow> session_state \<Rightarrow> filesystem \<Rightarrow> env \<Rightarrow> ReadmeHandlerConfig page_result" where
  "readme_page f s fs ev =
     (if r_button f then
        (case exists_path fs (Path (r_repo_path f)) of
           Inl e \<Rightarrow> path_test_raised e s fs
         | Inr found \<Rightarrow>
             if \<not> found then
               \<lparr>raised = None, session = s, fs_after = fs,
                rendered = [path_error (r_repo_path f)], handler_calls = [],
                log_calls = []\<rparr>
             else
               let config_obj = readme_config f
               in (case run_readme_generation ev (Path (r_repo_path f)) config_obj fs of
                     (None, fs1) \<Rightarrow>
                       (case show_readme fs1 (joinpath (Path (r_repo_path f)) ''README.md'') of
                          (None, es) \<Rightarrow>
                            \<lparr>raised = None, session = s, fs_after = fs1,
                             rendered =
                               Success (check_mark @ '' README generated successfully!'')
                               # es,
                             handler_calls = [config_obj], log_calls = []\<rparr>
                        | (Some e, es) \<Rightarrow>
                            except_Exception '' README generation failed: ''
                              ''README generation error: '' ev s fs1 config_obj
                              (Success (check_mark @ '' README generated successfully!'')
                               # es) e)
                   | (Some e, fs1) \<Rightarrow>
                       except_Exception '' README generation failed: ''
                         ''README generation error: '' ev s fs1 config_obj [] e))
      else
        \<lparr>raised = None, session = s, fs_after = fs, rendered = [],
         handler_calls = [], log_calls = []\<rparr>)"

subsection \<open>AI Rules\<close>

fun display_rule_files :: "filesystem \<Rightarrow> path list \<Rightarrow> exn option \<times> element list" where
  "display_rule_files fs [] = (None, [])"
| "display_rule_files fs (rule_file # rest) =
     (case read_text fs rule_file of
        Inl e \<Rightarrow> (Some e, [Markdown (''**'' @ path_name rule_file @ ''**'')])
      | Inr t \<Rightarrow>
          (case display_rule_files fs rest of
             (r, es) \<Rightarrow> (r, Markdown (''**'' @ path_name rule_file @ ''**'') # Code t # es)))"

text \<open>\<^verbatim>\<open>content = file_path.read_text() if file_path.is_file() else ""\<close>\<close>

definition artifact_content :: "filesystem \<Rightarrow> path \<Rightarrow> exn + string" where
  "artifact_content fs file_path =
     (case is_file fs file_path of
        Inl e \<Rightarrow> Inl e
      | Inr regular \<Rightarrow> if regular then read_text fs file_path else Inr [])"

fun display_artifact :: "filesystem \<Rightarrow> path \<times> string \<Rightarrow> exn option \<times> element list" where
  "display_artifact fs (file_path, display_name) =
     (case exists_path fs file_path of
        Inl e \<Rightarrow> (Some e, [])
      | Inr found \<Rightarrow>
          if found then
            (case artifact_content fs file_path of
               Inl e \<Rightarrow> (Some e, [Expander (memo_icon @ '' '' @ display_name) []])
             | Inr content \<Rightarrow>
                 (case is_dir fs file_path of
                    Inl e \<Rightarrow> (Some e, [Expander (memo_icon @ '' '' @ display_name) []])
                  | Inr directory \<Rightarrow>
                      if directory then
                        (case display_rule_files fs (glob_md fs file_path) of
                           (r, es) \<Rightarrow>
                             (r, [Expander (memo_icon @ '' '' @ display_name)
                                    (Info (''Directory created: '' @ str_path file_path)
                                     # es)]))
                      else
                        (None,
                         [Expander (memo_icon @ '' '' @ display_name)
                            [Markdown content,
                             Download_button (down_arrow @ '' Download '' @ display_name)
                               content display_name ''text/markdown'']])))
          else (None, []))"

fun display_artifacts :: "filesystem \<Rightarrow> (path \<times> string) list \<Rightarrow> exn option \<times> element list" where
  "display_artifacts fs [] = (None, [])"
| "display_artifacts fs (x # xs) =
     (case display_artifact fs x of
        (Some e, es) \<Rightarrow> (Some e, es)
      | (None, es) \<Rightarrow>
          (case display_artifacts fs xs of (r, es') \<Rightarrow> (r, es @ es')))"

definition files_to_display :: "path \<Rightarrow> (path \<times> string) list" where
  "files_to_display repo =
     [(joinpath repo ''CLAUDE.md'', ''CLAUDE.md''),
      (joinpath repo ''AGENTS.md'', ''AGENTS.md''),
      (joinpath (joinpath repo ''.cursor'') ''rules'', ''Cursor Rules'')]"

definition ai_rules_page ::
  "ai_rules_form \<Rightarrow> session_state \<Rightarrow> filesystem \<Rightarrow> env \<Rightarrow> AIRulesHandlerConfig page_result" where
  "ai_rules_page f s fs ev =
     (if g_button f then
        (case exists_path fs (Path (g_repo_path f)) of
           Inl e \<Rightarrow> path_test_raised e s fs
         | Inr found \<Rightarrow>
             if \<not> found then
               \<lparr>raised = None, session = s, fs_after = fs,
                rendered = [path_error (g_repo_path f)], handler_calls = [],
                log_calls = []\<rparr>
             else
               let config_obj = ai_rules_config f
               in (case run_ai_rules_generation ev (Path (g_repo_path f)) config_obj fs of
                     (None, fs1) \<Rightarrow>
                       (case display_artifacts fs1 (files_to_display (Path (g_repo_path f))) of
                          (None, es) \<Rightarrow>
                            \<lparr>raised = None, session = s, fs_after = fs1,
                             rendered =
                               Success (check_mark @ '' AI rules generated successfully!'')
                               # Markdown (''### '' @ page_icon @ '' Generated Files'') # es,
                             handler_calls = [config_obj], log_calls = []\<rparr>
                        | (Some e, es) \<Rightarrow>
                            except_Exception '' AI rules generation failed: ''
                              ''AI rules generation error: '' ev s fs1 config_obj
                              (Success (check_mark @ '' AI rules generated successfully!'')
                               # Markdown (''### '' @ page_icon @ '' Generated Files'')
                               # es) e)
                   | (Some e, fs1) \<Rightarrow>
                       except_Exception '' AI rules generation failed: ''
                         ''AI rules generation error: '' ev s fs1 config_obj [] e))
      else
        \<lparr>raised = None, session = s, fs_after = fs, rendered = [],
         handler_calls = [], log_calls = []\<rparr>)"

section \<open>The script\<close>

text \<open>
  One run of the script: \<open>main\<close> initialises the session state and routes to the page
  picked in the sidebar. The About page and the sidebar render fixed text only. The
  result is the exception that ended the run (if any), the session state and the
  filesystem left behind, and what the page rendered.
\<close>

datatype page =
    Analysis analyze_form
  | README readme_form
  | AI_Rules ai_rules_form
  | About

definition main ::
  "page \<Rightarrow> session_store \<Rightarrow> filesystem \<Rightarrow> env
     \<Rightarrow> exn option \<times> session_state \<times> filesystem \<times> element list" where
  "main pg st fs ev =
     (let s = init_session_state st
      in (case pg of
            Analysis f \<Rightarrow>
              (let r = analyze_page f s fs ev
               in (raised r, session r, fs_after r, rendered r))
          | README f \<Rightarrow>
              (let r = readme_page f s fs ev
               in (raised r, session r, fs_after r, rendered r))
          | AI_Rules f \<Rightarrow>
              (let r = ai_rules_page f s fs ev
               in (raised r, session r, fs_after r, rendered r))
          | About \<Rightarrow> (None, s, fs, [])))"

text \<open>The store a run leaves to the next run of the same session, and the session
  states after each of a series of runs.\<close>

definition store_of :: "session_state \<Rightarrow> session_store" where
  "store_of s =
     \<lparr>analysis_running_key = Some (analysis_running s),
      analysis_complete_key = Some (analysis_complete s),
      generated_files_key = Some (generated_files s)\<rparr>"

fun session_trace :: "env \<Rightarrow> page list \<Rightarrow> session_store \<Rightarrow> filesystem \<Rightarrow> session_state list" where
  "session_trace ev [] st fs = []"
| "session_trace ev (pg # pgs) st fs =
     (case main pg st fs ev of
        (r, s, fs1, es) \<Rightarrow> s # session_trace ev pgs (store_of s) fs1)"

section \<open>The display of the AI Rules artifacts, as the specification words it\<close>

text \<open>
  A second description of what the AI Rules page shows for one artifact location,
  written from the specification and not from the code: a location is displayed if and
  only if it exists; a directory is rendered by listing its markdown members, each with
  its name and its text; anything else by its text and a download button. The text of a
  file is what \<^verbatim>\<open>read_text()\<close> returns for it.
\<close>

definition file_text :: "filesystem \<Rightarrow> path \<Rightarrow> string" where
  "file_text fs p = (case nodes fs p of Some (File cs) \<Rightarrow> universal_newlines cs | _ \<Rightarrow> [])"

definition rule_file_entry :: "filesystem \<Rightarrow> path \<Rightarrow> element list" where
  "rule_file_entry fs p = [Markdown (''**'' @ path_name p @ ''**''), Code (file_text fs p)]"

definition present :: "filesystem \<Rightarrow> path \<Rightarrow> bool" where
  "present fs p = (nodes fs p \<noteq> None)"

definition directory :: "filesystem \<Rightarrow> path \<Rightarrow> bool" where
  "directory fs p = (case nodes fs p of Some (Dir ns) \<Rightarrow> True | _ \<Rightarrow> False)"

definition artifact_view :: "filesystem \<Rightarrow> path \<Rightarrow> string \<Rightarrow> element list" where
  "artifact_view fs file_path display_name =
     (if \<not> present fs file_path then []
      else if directory fs file_path then
        [Expander (memo_icon @ '' '' @ display_name)
           (Info (''Directory created: '' @ str_path file_path)
            # concat (map (rule_file_entry fs) (glob_md fs file_path)))]
      else
        [Expander (memo_icon @ '' '' @ display_name)
           [Markdown (file_text fs file_path),
            Download_button (down_arrow @ '' Download '' @ display_name)
              (file_text fs file_path) display_name ''text/markdown'']])"

text \<open>
  A path is readable when \<^verbatim>\<open>stat\<close> succeeds on it and a regular file that opens and
  decodes is there. The reads the AI Rules page makes at a location succeed when
  \<^verbatim>\<open>stat\<close> succeeds on the location, a regular file there opens and decodes, and every
  markdown entry of a directory there is readable.
\<close>

definition readable :: "filesystem \<Rightarrow> path \<Rightarrow> bool" where
  "readable fs p =
     (stat_error fs p = None \<and> (case nodes fs p of Some (File cs) \<Rightarrow> True | _ \<Rightarrow> False))"

definition reads_succeed :: "filesystem \<Rightarrow> path \<Rightarrow> bool" where
  "reads_succeed fs p =
     (stat_error fs p = None \<and>
      (case nodes fs p of
         Some (Unreadable m) \<Rightarrow> False
       | Some (Dir ns) \<Rightarrow> list_all (readable fs) (glob_md fs p)
       | _ \<Rightarrow> True))"

section \<open>Sample inputs\<close>

text \<open>Filesystems on which \<^verbatim>\<open>stat\<close> never fails are given by what is there.\<close>

definition plain_fs :: "(path \<Rightarrow> node option) \<Rightarrow> filesystem" where
  "plain_fs m = \<lparr>nodes = m, stat_error = (\<lambda>p. None)\<rparr>"

definition repo_only :: filesystem where
  "repo_only = plain_fs [[''/'', ''repo''] \<mapsto> Dir []]"

definition fresh_session :: session_state where
  "fresh_session = init_session_state
     \<lparr>analysis_running_key = None, analysis_complete_key = None, generated_files_key = None\<rparr>"

definition analyze_sample :: analyze_form where
  "analyze_sample =
     \<lparr>a_repo_path = ''/repo'', a_max_workers = Some 4, a_exclude_structure = False,
      a_exclude_dependencies = True, a_exclude_data_flow = False,
      a_exclude_request_flow = False, a_exclude_api = False, a_button = True\<rparr>"

definition readme_sample :: readme_form where
  "readme_sample =
     \<lparr>r_repo_path = ''/repo'', r_use_existing = True, r_exclude_overview = False,
      r_exclude_toc = False, r_exclude_architecture = False, r_exclude_c4 = True,
      r_exclude_structure = False, r_exclude_dependencies = False, r_exclude_api = False,
      r_exclude_dev_notes = False, r_exclude_issues = False, r_button = True\<rparr>"

definition ai_rules_sample :: ai_rules_form where
  "ai_rules_sample =
     \<lparr>g_repo_path = ''/repo'', g_skip_claude = False, g_skip_agents = False,
      g_skip_cursor = False, g_detail_level = Some 2, g_max_claude_lines = Some 5000,
      g_max_agents_lines = None, g_button = True\<rparr>"

text \<open>Handlers that return at once and change nothing; handlers that raise an
  \<^verbatim>\<open>Exception\<close> while the logger raises too; handlers that raise outside
  \<^verbatim>\<open>Exception\<close>.\<close>

definition idle_env :: env where
  "idle_env =
     \<lparr>AnalyzeHandler_handle = (\<lambda>c fs. (None, fs)),
      ReadmeHandler_handle = (\<lambda>c fs. (None, fs)),
      AIRulesHandler_handle = (\<lambda>c fs. (None, fs)),
      Logger_error = (\<lambda>m. None)\<rparr>"

definition failing_env :: env where
  "failing_env =
     \<lparr>AnalyzeHandler_handle = (\<lambda>c fs. (Some (Exception ''boom''), fs)),
      ReadmeHandler_handle = (\<lambda>c fs. (Some (Exception ''boom''), fs)),
      AIRulesHandler_handle = (\<lambda>c fs. (Some (Exception ''boom''), fs)),
      Logger_error = (\<lambda>m. Some (Exception ''log closed''))\<rparr>"

definition exiting_env :: env where
  "exiting_env =
     \<lparr>AnalyzeHandler_handle = (\<lambda>c fs. (Some (BaseException ''1''), fs)),
      ReadmeHandler_handle = (\<lambda>c fs. (Some (BaseException ''1''), fs)),
      AIRulesHandler_handle = (\<lambda>c fs. (Some (BaseException ''1''), fs)),
      Logger_error = (\<lambda>m. None)\<rparr>"

text \<open>A repository after successful runs of the three handlers, and handlers that
  leave it behind.\<close>

definition documented_repo :: filesystem where
  "documented_repo = plain_fs
     [[''/'', ''repo''] \<mapsto> Dir [''.ai'', ''.cursor'', ''CLAUDE.md'', ''README.md''],
      [''/'', ''repo'', ''.ai''] \<mapsto> Dir [''docs''],
      [''/'', ''repo'', ''.ai'', ''docs''] \<mapsto> Dir [''api.md'', ''log.txt''],
      [''/'', ''repo'', ''.ai'', ''docs'', ''api.md''] \<mapsto> File ''# API'',
      [''/'', ''repo'', ''.ai'', ''docs'', ''log.txt''] \<mapsto> File ''done'',
      [''/'', ''repo'', ''README.md''] \<mapsto> File ''# Repo'',
      [''/'', ''repo'', ''CLAUDE.md''] \<mapsto> File ''Be brief.'',
      [''/'', ''repo'', ''.cursor''] \<mapsto> Dir [''rules''],
      [''/'', ''repo'', ''.cursor'', ''rules''] \<mapsto> Dir [''style.md'', ''todo.txt''],
      [''/'', ''repo'', ''.cursor'', ''rules'', ''style.md''] \<mapsto> File ''Use tabs.'',
      [''/'', ''repo'', ''.cursor'', ''rules'', ''todo.txt''] \<mapsto> File ''later'']"

definition writing_env :: env where
  "writing_env =
     \<lparr>AnalyzeHandler_handle = (\<lambda>c fs. (None, documented_repo)),
      ReadmeHandler_handle = (\<lambda>c fs. (None, documented_repo)),
      AIRulesHandler_handle = (\<lambda>c fs. (None, documented_repo)),
      Logger_error = (\<lambda>m. None)\<rparr>"

definition analyzed_session :: session_state where
  "analyzed_session =
     \<lparr>analysis_running = False, analysis_complete = True,
      generated_files = [[''/'', ''repo'', ''.ai'', ''docs'', ''api.md'']]\<rparr>"

text \<open>A second repository beside the documented one, with nothing in it, and the
  Analyze form pointed at it.\<close>

definition two_repos :: filesystem where
  "two_repos =
     documented_repo\<lparr>nodes := (nodes documented_repo)([''/'', ''other''] \<mapsto> Dir [])\<rparr>"

definition other_form :: analyze_form where
  "other_form = analyze_sample\<lparr>a_repo_path := ''/other''\<rparr>"

text \<open>A repository in which \<^verbatim>\<open>CLAUDE.md\<close> is a directory that holds a directory named
  \<^verbatim>\<open>notes.md\<close>, beside a regular \<^verbatim>\<open>AGENTS.md\<close>; and a handler that leaves it behind.\<close>

definition nested_repo :: filesystem where
  "nested_repo = plain_fs
     [[''/'', ''repo''] \<mapsto> Dir [''AGENTS.md'', ''CLAUDE.md''],
      [''/'', ''repo'', ''CLAUDE.md''] \<mapsto> Dir [''notes.md''],
      [''/'', ''repo'', ''CLAUDE.md'', ''notes.md''] \<mapsto> Dir [],
      [''/'', ''repo'', ''AGENTS.md''] \<mapsto> File ''Ask first.'']"

definition nesting_env :: env where
  "nesting_env = idle_env\<lparr>AIRulesHandler_handle := (\<lambda>c fs. (None, nested_repo))\<rparr>"

text \<open>
  A filesystem that refuses a name of more than 255 characters, as \<^verbatim>\<open>stat\<close> does with
  \<^verbatim>\<open>ENAMETOOLONG\<close>; a name of 300 characters; and the three forms pointed at it.
\<close>

definition name_limit :: "path \<Rightarrow> string option" where
  "name_limit p =
     (if list_ex (\<lambda>c. 255 < length c) p
      then Some (''[Errno 36] File name too long: '' @ quoted (str_path p))
      else None)"

definition limited_repo :: filesystem where
  "limited_repo = repo_only\<lparr>stat_error := name_limit\<rparr>"

definition long_name :: string where
  "long_name = replicate 300 (CHR ''a'')"

text \<open>
  Repositories left by a Readme run: one whose \<^verbatim>\<open>README.md\<close> has Windows line ends, one
  in which \<^verbatim>\<open>README.md\<close> is a directory, and one whose \<^verbatim>\<open>README.md\<close> does not decode.
\<close>

definition crlf_repo :: filesystem where
  "crlf_repo = plain_fs
     [[''/'', ''repo''] \<mapsto> Dir [''README.md''],
      [''/'', ''repo'', ''README.md''] \<mapsto> File [CHR ''a'', CHR 0x0D, CHR 0x0A, CHR ''b'']]"

definition readme_dir_repo :: filesystem where
  "readme_dir_repo = plain_fs
     [[''/'', ''repo''] \<mapsto> Dir [''README.md''],
      [''/'', ''repo'', ''README.md''] \<mapsto> Dir []]"

definition undecodable_repo :: filesystem where
  "undecodable_repo = plain_fs
     [[''/'', ''repo''] \<mapsto> Dir [''README.md''],
      [''/'', ''repo'', ''README.md''] \<mapsto>
        Unreadable ''codec cannot decode byte 0xff in position 0'']"

text \<open>Handlers that return and leave a given filesystem behind.\<close>

definition leaving :: "filesystem \<Rightarrow> env" where
  "leaving fs1 =
     \<lparr>AnalyzeHandler_handle = (\<lambda>c fs. (None, fs1)),
      ReadmeHandler_handle = (\<lambda>c fs. (None, fs1)),
      AIRulesHandler_handle = (\<lambda>c fs. (None, fs1)),
      Logger_error = (\<lambda>m. None)\<rparr>"

section \<open>Facts about single page runs\<close>

lemma analyze_page_calls:
  "handler_calls (analyze_page f s fs ev) =
     (if a_button f \<and> exists_path fs (Path (a_repo_path f)) = Inr True
      then [analyze_config f] else [])"
  by (simp add: analyze_page_def analyze_except_def path_test_raised_def Let_def
      split: prod.splits option.splits sum.splits)

lemma readme_page_calls:
  "handler_calls (readme_page f s fs ev) =
     (if r_button f \<and> exists_path fs (Path (r_repo_path f)) = Inr True
      then [readme_config f] else [])"
  by (simp add: readme_page_def except_Exception_def path_test_raised_def Let_def
      split: prod.splits option.splits sum.splits)

lemma ai_rules_page_calls:
  "handler_calls (ai_rules_page f s fs ev) =
     (if g_button f \<and> exists_path fs (Path (g_repo_path f)) = Inr True
      then [ai_rules_config f] else [])"
  by (simp add: ai_rules_page_def except_Exception_def path_test_raised_def Let_def
      split: prod.splits option.splits sum.splits)

lemma readme_page_session: "session (readme_page f s fs ev) = s"
  by (simp add: readme_page_def except_Exception_def path_test_raised_def Let_def
      split: prod.splits option.splits sum.splits)

lemma ai_rules_page_session: "session (ai_rules_page f s fs ev) = s"
  by (simp add: ai_rules_page_def except_Exception_def path_test_raised_def Let_def
      split: prod.splits option.splits sum.splits)

lemma analyze_page_no_path:
  "a_button f \<Longrightarrow> exists_path fs (Path (a_repo_path f)) = Inr False \<Longrightarrow>
   analyze_page f s fs ev =
     \<lparr>raised = None, session = s, fs_after = fs, rendered = [path_error (a_repo_path f)],
      handler_calls = [], log_calls = []\<rparr>"
  by (simp add: analyze_page_def)

lemma readme_page_no_path:
  "r_button f \<Longrightarrow> exists_path fs (Path (r_repo_path f)) = Inr False \<Longrightarrow>
   readme_page f s fs ev =
     \<lparr>raised = None, session = s, fs_after = fs, rendered = [path_error (r_repo_path f)],
      handler_calls = [], log_calls = []\<rparr>"
  by (simp add: readme_page_def)

lemma ai_rules_page_no_path:
  "g_button f \<Longrightarrow> exists_path fs (Path (g_repo_path f)) = Inr False \<Longrightarrow>
   ai_rules_page f s fs ev =
     \<lparr>raised = None, session = s, fs_after = fs, rendered = [path_error (g_repo_path f)],
      handler_calls = [], log_calls = []\<rparr>"
  by (simp add: ai_rules_page_def)

lemma analyze_page_path_raises:
  "a_button f \<Longrightarrow> exists_path fs (Path (a_repo_path f)) = Inl e \<Longrightarrow>
   analyze_page f s fs ev = path_test_raised e s fs"
  by (simp add: analyze_page_def)

lemma readme_page_path_raises:
  "r_button f \<Longrightarrow> exists_path fs (Path (r_repo_path f)) = Inl e \<Longrightarrow>
   readme_page f s fs ev = path_test_raised e s fs"
  by (simp add: readme_page_def)

lemma ai_rules_page_path_raises:
  "g_button f \<Longrightarrow> exists_path fs (Path (g_repo_path f)) = Inl e \<Longrightarrow>
   ai_rules_page f s fs ev = path_test_raised e s fs"
  by (simp add: ai_rules_page_def)

lemma absent_not_found: "nodes fs p = None \<Longrightarrow> exists_path fs p \<noteq> Inr True"
  by (simp add: exists_path_def split: option.splits)

lemma analyze_page_idle:
  "\<not> a_button f \<or> exists_path fs (Path (a_repo_path f)) \<noteq> Inr True \<Longrightarrow>
   session (analyze_page f s fs ev) = s \<and> fs_after (analyze_page f s fs ev) = fs"
  by (auto simp add: analyze_page_def path_test_raised_def split: prod.splits sum.splits)

lemma readme_page_idle:
  "\<not> r_button f \<or> exists_path fs (Path (r_repo_path f)) \<noteq> Inr True \<Longrightarrow>
   fs_after (readme_page f s fs ev) = fs"
  by (auto simp add: readme_page_def path_test_raised_def split: prod.splits sum.splits)

lemma ai_rules_page_idle:
  "\<not> g_button f \<or> exists_path fs (Path (g_repo_path f)) \<noteq> Inr True \<Longrightarrow>
   fs_after (ai_rules_page f s fs ev) = fs"
  by (auto simp add: ai_rules_page_def path_test_raised_def split: prod.splits sum.splits)

lemma Path_repo: "Path ''/repo'' = [''/'', ''repo'']"
  by (simp add: Path_def)

lemma Path_nowhere: "Path ''/nowhere'' = [''/'', ''nowhere'']"
  by (simp add: Path_def)

lemma split_sep_plain: "CHR ''/'' \<notin> set w \<Longrightarrow> split_sep w = [w]"
  by (induction w) auto

lemma path_root_slash:
  "w \<noteq> [] \<Longrightarrow> hd w \<noteq> CHR ''/'' \<Longrightarrow> path_root (CHR ''/'' # w) = ''/''"
  by (cases w; cases "tl w") auto

lemma Path_one_name:
  assumes "w \<noteq> []" "w \<noteq> ''.''" "CHR ''/'' \<notin> set w"
  shows "Path (CHR ''/'' # w) = [''/'', w]"
proof -
  from assms have "hd w \<noteq> CHR ''/''" by (cases w) auto
  with assms have r: "path_root (CHR ''/'' # w) = ''/''" by (simp add: path_root_slash)
  from assms have s: "split_sep (CHR ''/'' # w) = [[], w]" by (simp add: split_sep_plain)
  from assms show ?thesis unfolding Path_def r s by simp
qed

lemma long_name_length: "length long_name = 300"
  by (simp add: long_name_def)

lemma long_name_differs: "length w < 300 \<Longrightarrow> long_name \<noteq> w"
  using long_name_length by auto

lemma long_name_facts:
  "long_name \<noteq> []" "long_name \<noteq> ''.''" "long_name \<noteq> ''repo''"
  "CHR ''/'' \<notin> set long_name"
  by (simp_all add: long_name_differs) (simp add: long_name_def)

lemma Path_long_name: "Path (CHR ''/'' # long_name) = [''/'', long_name]"
  by (simp add: Path_one_name long_name_facts)

lemma long_name_refused:
  "exists_path limited_repo [''/'', long_name] =
     Inl (Exception (''[Errno 36] File name too long: '' @ quoted (CHR ''/'' # long_name)))"
  "nodes limited_repo [''/'', long_name] = None"
  by (simp_all add: exists_path_def limited_repo_def repo_only_def plain_fs_def name_limit_def
      long_name_facts long_name_length str_path_def)

lemma repo_only_paths:
  "exists_path repo_only [''/'', ''repo''] = Inr True"
  "exists_path repo_only [''/'', ''nowhere''] = Inr False"
  by (simp_all add: exists_path_def repo_only_def plain_fs_def)

section \<open>A path that does not exist\<close>

text \<open>
  C2, as the code has it. On each of the three pages, when the button is pressed and
  \<^verbatim>\<open>Path(repo_path).exists()\<close> answers false, the page function returns normally, renders
  exactly the error message naming the path, passes no configuration object to its
  handler and leaves the filesystem as it was. Whenever nothing is at the submitted
  path, whatever the existence test does, no configuration object reaches a handler and
  the filesystem stays as it was.
\<close>

theorem absent_path_short_circuits:
  "(a_button fa \<and> exists_path fs (Path (a_repo_path fa)) = Inr False \<longrightarrow>
      raised (analyze_page fa s fs ev) = None \<and>
      rendered (analyze_page fa s fs ev) =
        [Error (cross_mark @ '' Repository path does not exist: '' @ a_repo_path fa)] \<and>
      handler_calls (analyze_page fa s fs ev) = [] \<and>
      fs_after (analyze_page fa s fs ev) = fs) \<and>
   (r_button fr \<and> exists_path fs (Path (r_repo_path fr)) = Inr False \<longrightarrow>
      raised (readme_page fr s fs ev) = None \<and>
      rendered (readme_page fr s fs ev) =
        [Error (cross_mark @ '' Repository path does not exist: '' @ r_repo_path fr)] \<and>
      handler_calls (readme_page fr s fs ev) = [] \<and>
      fs_after (readme_page fr s fs ev) = fs) \<and>
   (g_button fg \<and> exists_path fs (Path (g_repo_path fg)) = Inr False \<longrightarrow>
      raised (ai_rules_page fg s fs ev) = None \<and>
      rendered (ai_rules_page fg s fs ev) =
        [Error (cross_mark @ '' Repository path does not exist: '' @ g_repo_path fg)] \<and>
      handler_calls (ai_rules_page fg s fs ev) = [] \<and>
      fs_after (ai_rules_page fg s fs ev) = fs) \<and>
   (nodes fs (Path (a_repo_path fa)) = None \<longrightarrow>
      handler_calls (analyze_page fa s fs ev) = [] \<and>
      fs_after (analyze_page fa s fs ev) = fs) \<and>
   (nodes fs (Path (r_repo_path fr)) = None \<longrightarrow>
      handler_calls (readme_page fr s fs ev) = [] \<and>
      fs_after (readme_page fr s fs ev) = fs) \<and>
   (nodes fs (Path (g_repo_path fg)) = None \<longrightarrow>
      handler_calls (ai_rules_page fg s fs ev) = [] \<and>
      fs_after (ai_rules_page fg s fs ev) = fs)"
proof -
  have shown: "(a_button fa \<and> exists_path fs (Path (a_repo_path fa)) = Inr False \<longrightarrow>
      raised (analyze_page fa s fs ev) = None \<and>
      rendered (analyze_page fa s fs ev) =
        [Error (cross_mark @ '' Repository path does not exist: '' @ a_repo_path fa)] \<and>
      handler_calls (analyze_page fa s fs ev) = [] \<and>
      fs_after (analyze_page fa s fs ev) = fs) \<and>
   (r_button fr \<and> exists_path fs (Path (r_repo_path fr)) = Inr False \<longrightarrow>
      raised (readme_page fr s fs ev) = None \<and>
      rendered (readme_page fr s fs ev) =
        [Error (cross_mark @ '' Repository path does not exist: '' @ r_repo_path fr)] \<and>
      handler_calls (readme_page fr s fs ev) = [] \<and>
      fs_after (readme_page fr s fs ev) = fs) \<and>
   (g_button fg \<and> exists_path fs (Path (g_repo_path fg)) = Inr False \<longrightarrow>
      raised (ai_rules_page fg s fs ev) = None \<and>
      rendered (ai_rules_page fg s fs ev) =
        [Error (cross_mark @ '' Repository path does not exist: '' @ g_repo_path fg)] \<and>
      handler_calls (ai_rules_page fg s fs ev) = [] \<and>
      fs_after (ai_rules_page fg s fs ev) = fs)"
    by (simp add: analyze_page_no_path readme_page_no_path ai_rules_page_no_path
        path_error_def)
  have a: "nodes fs (Path (a_repo_path fa)) = None \<longrightarrow>
      handler_calls (analyze_page fa s fs ev) = [] \<and>
      fs_after (analyze_page fa s fs ev) = fs"
    using absent_not_found [of fs "Path (a_repo_path fa)"]
    by (simp add: analyze_page_calls analyze_page_idle)
  have r: "nodes fs (Path (r_repo_path fr)) = None \<longrightarrow>
      handler_calls (readme_page fr s fs ev) = [] \<and>
      fs_after (readme_page fr s fs ev) = fs"
    using absent_not_found [of fs "Path (r_repo_path fr)"]
    by (simp add: readme_page_calls readme_page_idle)
  have g: "nodes fs (Path (g_repo_path fg)) = None \<longrightarrow>
      handler_calls (ai_rules_page fg s fs ev) = [] \<and>
      fs_after (ai_rules_page fg s fs ev) = fs"
    using absent_not_found [of fs "Path (g_repo_path fg)"]
    by (simp add: ai_rules_page_calls ai_rules_page_idle)
  from shown a r g show ?thesis by blast
qed

theorem absent_path_short_circuits_witness:
  "a_button (analyze_sample\<lparr>a_repo_path := ''/nowhere''\<rparr>) \<and>
   r_button (readme_sample\<lparr>r_repo_path := ''/nowhere''\<rparr>) \<and>
   g_button (ai_rules_sample\<lparr>g_repo_path := ''/nowhere''\<rparr>) \<and>
   exists_path repo_only (Path ''/nowhere'') = Inr False \<and>
   nodes repo_only (Path ''/nowhere'') = None \<and>
   rendered (analyze_page (analyze_sample\<lparr>a_repo_path := ''/nowhere''\<rparr>)
     fresh_session repo_only failing_env) =
     [Error (cross_mark @ '' Repository path does not exist: /nowhere'')] \<and>
   handler_calls (analyze_page (analyze_sample\<lparr>a_repo_path := ''/nowhere''\<rparr>)
     fresh_session repo_only failing_env) = [] \<and>
   rendered (readme_page (readme_sample\<lparr>r_repo_path := ''/nowhere''\<rparr>)
     fresh_session repo_only failing_env) =
     [Error (cross_mark @ '' Repository path does not exist: /nowhere'')] \<and>
   handler_calls (readme_page (readme_sample\<lparr>r_repo_path := ''/nowhere''\<rparr>)
     fresh_session repo_only failing_env) = [] \<and>
   rendered (ai_rules_page (ai_rules_sample\<lparr>g_repo_path := ''/nowhere''\<rparr>)
     fresh_session repo_only failing_env) =
     [Error (cross_mark @ '' Repository path does not exist: /nowhere'')] \<and>
   handler_calls (ai_rules_page (ai_rules_sample\<lparr>g_repo_path := ''/nowhere''\<rparr>)
     fresh_session repo_only failing_env) = []"
proof -
  have b: "a_button (analyze_sample\<lparr>a_repo_path := ''/nowhere''\<rparr>)"
    "r_button (readme_sample\<lparr>r_repo_path := ''/nowhere''\<rparr>)"
    "g_button (ai_rules_sample\<lparr>g_repo_path := ''/nowhere''\<rparr>)"
    by (simp_all add: analyze_sample_def readme_sample_def ai_rules_sample_def)
  have p: "exists_path repo_only (Path ''/nowhere'') = Inr False"
    "nodes repo_only (Path ''/nowhere'') = None"
    by (simp add: repo_only_paths Path_nowhere)
      (simp add: Path_nowhere repo_only_def plain_fs_def)
  from b p
    absent_path_short_circuits [of "analyze_sample\<lparr>a_repo_path := ''/nowhere''\<rparr>"
      repo_only fresh_session failing_env "readme_sample\<lparr>r_repo_path := ''/nowhere''\<rparr>"
      "ai_rules_sample\<lparr>g_repo_path := ''/nowhere''\<rparr>"]
  show ?thesis by simp
qed

text \<open>
  C2, as the claim states it, fails: a path with a name of 300 characters does not
  exist, but \<^verbatim>\<open>exists()\<close> raises \<^verbatim>\<open>OSError\<close> for it instead of answering false. The
  test stands before the \<^verbatim>\<open>try\<close>, so the error leaves each page function and the
  message that the path does not exist is not rendered.
\<close>

theorem overlong_path_raises:
  "nodes limited_repo (Path (CHR ''/'' # long_name)) = None \<and>
   raised (analyze_page (analyze_sample\<lparr>a_repo_path := CHR ''/'' # long_name\<rparr>)
     fresh_session limited_repo idle_env) =
     Some (Exception (''[Errno 36] File name too long: '' @ quoted (CHR ''/'' # long_name))) \<and>
   rendered (analyze_page (analyze_sample\<lparr>a_repo_path := CHR ''/'' # long_name\<rparr>)
     fresh_session limited_repo idle_env) = [] \<and>
   raised (readme_page (readme_sample\<lparr>r_repo_path := CHR ''/'' # long_name\<rparr>)
     fresh_session limited_repo idle_env) =
     Some (Exception (''[Errno 36] File name too long: '' @ quoted (CHR ''/'' # long_name))) \<and>
   rendered (readme_page (readme_sample\<lparr>r_repo_path := CHR ''/'' # long_name\<rparr>)
     fresh_session limited_repo idle_env) = [] \<and>
   raised (ai_rules_page (ai_rules_sample\<lparr>g_repo_path := CHR ''/'' # long_name\<rparr>)
     fresh_session limited_repo idle_env) =
     Some (Exception (''[Errno 36] File name too long: '' @ quoted (CHR ''/'' # long_name))) \<and>
   rendered (ai_rules_page (ai_rules_sample\<lparr>g_repo_path := CHR ''/'' # long_name\<rparr>)
     fresh_session limited_repo idle_env) = []"
proof -
  have b: "a_button (analyze_sample\<lparr>a_repo_path := CHR ''/'' # long_name\<rparr>)"
    "r_button (readme_sample\<lparr>r_repo_path := CHR ''/'' # long_name\<rparr>)"
    "g_button (ai_rules_sample\<lparr>g_repo_path := CHR ''/'' # long_name\<rparr>)"
    by (simp_all add: analyze_sample_def readme_sample_def ai_rules_sample_def)
  have p: "a_repo_path (analyze_sample\<lparr>a_repo_path := CHR ''/'' # long_name\<rparr>)
      = CHR ''/'' # long_name"
    "r_repo_path (readme_sample\<lparr>r_repo_path := CHR ''/'' # long_name\<rparr>) = CHR ''/'' # long_name"
    "g_repo_path (ai_rules_sample\<lparr>g_repo_path := CHR ''/'' # long_name\<rparr>)
      = CHR ''/'' # long_name"
    by simp_all
  have a: "analyze_page (analyze_sample\<lparr>a_repo_path := CHR ''/'' # long_name\<rparr>)
      fresh_session limited_repo idle_env =
    path_test_raised
      (Exception (''[Errno 36] File name too long: '' @ quoted (CHR ''/'' # long_name)))
      fresh_session limited_repo"
    by (rule analyze_page_path_raises) (simp_all only: b p Path_long_name long_name_refused)
  have r: "readme_page (readme_sample\<lparr>r_repo_path := CHR ''/'' # long_name\<rparr>)
      fresh_session limited_repo idle_env =
    path_test_raised
      (Exception (''[Errno 36] File name too long: '' @ quoted (CHR ''/'' # long_name)))
      fresh_session limited_repo"
    by (rule readme_page_path_raises) (simp_all only: b p Path_long_name long_name_refused)
  have g: "ai_rules_page (ai_rules_sample\<lparr>g_repo_path := CHR ''/'' # long_name\<rparr>)
      fresh_session limited_repo idle_env =
    path_test_raised
      (Exception (''[Errno 36] File name too long: '' @ quoted (CHR ''/'' # long_name)))
      fresh_session limited_repo"
    by (rule ai_rules_page_path_raises) (simp_all only: b p Path_long_name long_name_refused)
  show ?thesis
    by (simp add: a r g path_test_raised_def Path_long_name long_name_refused)
qed

text \<open>
  C9. On each of the three pages, when the submitted repository path does not exist
  (the existence test answers false or raises), the session state after the page
  function is the session state before it: none of \<open>analysis_running\<close>,
  \<open>analysis_complete\<close> and \<open>generated_files\<close> is written.
\<close>

theorem nonexistent_path_keeps_session:
  "(exists_path fs (Path (a_repo_path fa)) \<noteq> Inr True \<longrightarrow>
      session (analyze_page fa s fs ev) = s) \<and>
   (exists_path fs (Path (r_repo_path fr)) \<noteq> Inr True \<longrightarrow>
      session (readme_page fr s fs ev) = s) \<and>
   (exists_path fs (Path (g_repo_path fg)) \<noteq> Inr True \<longrightarrow>
      session (ai_rules_page fg s fs ev) = s) \<and>
   (nodes fs (Path (a_repo_path fa)) = None \<longrightarrow> session (analyze_page fa s fs ev) = s) \<and>
   (nodes fs (Path (r_repo_path fr)) = None \<longrightarrow> session (readme_page fr s fs ev) = s) \<and>
   (nodes fs (Path (g_repo_path fg)) = None \<longrightarrow> session (ai_rules_page fg s fs ev) = s)"
  using absent_not_found [of fs "Path (a_repo_path fa)"]
  by (simp add: analyze_page_idle readme_page_session ai_rules_page_session)

theorem nonexistent_path_keeps_session_witness:
  "exists_path repo_only (Path ''/nowhere'') = Inr False \<and>
   nodes limited_repo (Path (CHR ''/'' # long_name)) = None \<and>
   session (analyze_page (analyze_sample\<lparr>a_repo_path := ''/nowhere''\<rparr>)
     \<lparr>analysis_running = False, analysis_complete = True,
      generated_files = [[''/'', ''repo'', ''.ai'', ''docs'', ''api.md'']]\<rparr>
     repo_only idle_env) =
     \<lparr>analysis_running = False, analysis_complete = True,
      generated_files = [[''/'', ''repo'', ''.ai'', ''docs'', ''api.md'']]\<rparr> \<and>
   session (readme_page (readme_sample\<lparr>r_repo_path := ''/nowhere''\<rparr>)
     \<lparr>analysis_running = False, analysis_complete = True,
      generated_files = [[''/'', ''repo'', ''.ai'', ''docs'', ''api.md'']]\<rparr>
     repo_only idle_env) =
     \<lparr>analysis_running = False, analysis_complete = True,
      generated_files = [[''/'', ''repo'', ''.ai'', ''docs'', ''api.md'']]\<rparr> \<and>
   session (ai_rules_page (ai_rules_sample\<lparr>g_repo_path := ''/nowhere''\<rparr>)
     \<lparr>analysis_running = False, analysis_complete = True,
      generated_files = [[''/'', ''repo'', ''.ai'', ''docs'', ''api.md'']]\<rparr>
     repo_only idle_env) =
     \<lparr>analysis_running = False, analysis_complete = True,
      generated_files = [[''/'', ''repo'', ''.ai'', ''docs'', ''api.md'']]\<rparr> \<and>
   session (analyze_page (analyze_sample\<lparr>a_repo_path := CHR ''/'' # long_name\<rparr>)
     \<lparr>analysis_running = False, analysis_complete = True,
      generated_files = [[''/'', ''repo'', ''.ai'', ''docs'', ''api.md'']]\<rparr>
     limited_repo idle_env) =
     \<lparr>analysis_running = False, analysis_complete = True,
      generated_files = [[''/'', ''repo'', ''.ai'', ''docs'', ''api.md'']]\<rparr>"
proof -
  have p: "exists_path repo_only (Path ''/nowhere'') = Inr False"
    "nodes limited_repo (Path (CHR ''/'' # long_name)) = None"
    by (simp_all add: repo_only_paths Path_nowhere Path_long_name long_name_refused)
  have f: "a_repo_path (analyze_sample\<lparr>a_repo_path := ''/nowhere''\<rparr>) = ''/nowhere''"
    "r_repo_path (readme_sample\<lparr>r_repo_path := ''/nowhere''\<rparr>) = ''/nowhere''"
    "g_repo_path (ai_rules_sample\<lparr>g_repo_path := ''/nowhere''\<rparr>) = ''/nowhere''"
    "a_repo_path (analyze_sample\<lparr>a_repo_path := CHR ''/'' # long_name\<rparr>)
      = CHR ''/'' # long_name"
    by simp_all
  from p f
    nonexistent_path_keeps_session [of repo_only
      "analyze_sample\<lparr>a_repo_path := ''/nowhere''\<rparr>"
      "\<lparr>analysis_running = False, analysis_complete = True,
        generated_files = [[''/'', ''repo'', ''.ai'', ''docs'', ''api.md'']]\<rparr>"
      idle_env "readme_sample\<lparr>r_repo_path := ''/nowhere''\<rparr>"
      "ai_rules_sample\<lparr>g_repo_path := ''/nowhere''\<rparr>"]
    nonexistent_path_keeps_session [of limited_repo
      "analyze_sample\<lparr>a_repo_path := CHR ''/'' # long_name\<rparr>"
      "\<lparr>analysis_running = False, analysis_complete = True,
        generated_files = [[''/'', ''repo'', ''.ai'', ''docs'', ''api.md'']]\<rparr>"
      idle_env readme_sample ai_rules_sample]
  show ?thesis by simp
qed

section \<open>The session state outside the Analyze page\<close>

text \<open>
  C10. The Readme page and the AI Rules page leave the session state as they found it,
  whatever was submitted and whatever their handler and the logger do:
  \<open>analysis_running\<close>, \<open>analysis_complete\<close> and \<open>generated_files\<close> keep the values an
  earlier Analyze run gave them.
\<close>

theorem readme_and_ai_rules_keep_session:
  "session (readme_page fr s fs ev) = s \<and> session (ai_rules_page fg s' fs' ev') = s'"
  by (simp add: readme_page_session ai_rules_page_session)

theorem readme_and_ai_rules_keep_session_witness:
  "session (analyze_page analyze_sample fresh_session repo_only writing_env) = analyzed_session \<and>
   session (readme_page readme_sample analyzed_session documented_repo failing_env)
     = analyzed_session \<and>
   session (ai_rules_page ai_rules_sample analyzed_session documented_repo writing_env)
     = analyzed_session"
proof -
  have "session (analyze_page analyze_sample fresh_session repo_only writing_env)
          = analyzed_session"
    by (simp add: analyze_page_def analyze_sample_def fresh_session_def init_session_state_def
        repo_only_def plain_fs_def writing_env_def run_analysis_def exists_path_def Path_repo
        joinpath_def
        documented_repo_def glob_md_def ends_with_def display_results_def read_text_def
        analyzed_session_def)
  with readme_and_ai_rules_keep_session [of readme_sample analyzed_session documented_repo
      failing_env ai_rules_sample analyzed_session documented_repo writing_env]
  show ?thesis by simp
qed

section \<open>Configuration objects\<close>

text \<open>
  C6. On each page, two runs with the same submitted form, whatever the two session
  states, filesystems (in which the path exists), handlers and loggers, pass the same
  configuration object to the handler: the one built from the form alone, handed over
  as built.
\<close>

theorem config_is_function_of_form:
  "(a_button fa \<and> exists_path fs1 (Path (a_repo_path fa)) = Inr True \<and>
      exists_path fs2 (Path (a_repo_path fa)) = Inr True \<longrightarrow>
      handler_calls (analyze_page fa s1 fs1 ev1) = [analyze_config fa] \<and>
      handler_calls (analyze_page fa s2 fs2 ev2) = handler_calls (analyze_page fa s1 fs1 ev1)) \<and>
   (r_button fr \<and> exists_path fs1 (Path (r_repo_path fr)) = Inr True \<and>
      exists_path fs2 (Path (r_repo_path fr)) = Inr True \<longrightarrow>
      handler_calls (readme_page fr s1 fs1 ev1) = [readme_config fr] \<and>
      handler_calls (readme_page fr s2 fs2 ev2) = handler_calls (readme_page fr s1 fs1 ev1)) \<and>
   (g_button fg \<and> exists_path fs1 (Path (g_repo_path fg)) = Inr True \<and>
      exists_path fs2 (Path (g_repo_path fg)) = Inr True \<longrightarrow>
      handler_calls (ai_rules_page fg s1 fs1 ev1) = [ai_rules_config fg] \<and>
      handler_calls (ai_rules_page fg s2 fs2 ev2) = handler_calls (ai_rules_page fg s1 fs1 ev1))"
  by (simp add: analyze_page_calls readme_page_calls ai_rules_page_calls)

theorem config_is_function_of_form_witness:
  "exists_path repo_only (Path ''/repo'') = Inr True \<and>
   exists_path documented_repo (Path ''/repo'') = Inr True \<and>
   handler_calls (analyze_page analyze_sample fresh_session repo_only idle_env) =
     [\<lparr>repo_path = [''/'', ''repo''], exclude_code_structure = False,
       exclude_dependencies = True, exclude_data_flow = False, exclude_request_flow = False,
       exclude_api_analysis = False, max_workers = 4\<rparr>] \<and>
   handler_calls (analyze_page analyze_sample analyzed_session documented_repo failing_env) =
     handler_calls (analyze_page analyze_sample fresh_session repo_only idle_env) \<and>
   handler_calls (readme_page readme_sample analyzed_session documented_repo failing_env) =
     handler_calls (readme_page readme_sample fresh_session repo_only idle_env) \<and>
   handler_calls (ai_rules_page ai_rules_sample analyzed_session documented_repo failing_env) =
     handler_calls (ai_rules_page ai_rules_sample fresh_session repo_only idle_env)"
proof -
  have e: "exists_path repo_only (Path ''/repo'') = Inr True"
    "exists_path documented_repo (Path ''/repo'') = Inr True"
    by (simp_all add: exists_path_def repo_only_def documented_repo_def plain_fs_def Path_repo)
  have f: "a_button analyze_sample" "a_repo_path analyze_sample = ''/repo''"
    "r_button readme_sample" "r_repo_path readme_sample = ''/repo''"
    "g_button ai_rules_sample" "g_repo_path ai_rules_sample = ''/repo''"
    by (simp_all add: analyze_sample_def readme_sample_def ai_rules_sample_def)
  have c: "analyze_config analyze_sample =
     \<lparr>repo_path = [''/'', ''repo''], exclude_code_structure = False,
       exclude_dependencies = True, exclude_data_flow = False, exclude_request_flow = False,
       exclude_api_analysis = False, max_workers = 4\<rparr>"
    by (simp add: analyze_config_def analyze_sample_def Path_repo number_input_def)
  from e f c
    config_is_function_of_form [of analyze_sample repo_only documented_repo fresh_session
      idle_env analyzed_session failing_env readme_sample ai_rules_sample]
  show ?thesis by simp
qed

text \<open>
  C7. Every configuration object the Readme page passes to its handler has
  \<open>exclude_additional_documentation\<close> false, whatever was submitted: the field is a
  constant of \<open>readme_config\<close>, no field of the form enters it.
\<close>

theorem readme_additional_documentation_kept:
  "exclude_additional_documentation (readme_config f) = False \<and>
   (\<forall>c \<in> set (handler_calls (readme_page f s fs ev)).
      exclude_additional_documentation c = False)"
  by (simp add: readme_page_calls readme_config_def)

theorem readme_additional_documentation_kept_witness:
  "handler_calls (readme_page readme_sample fresh_session repo_only idle_env) =
     [readme_config readme_sample] \<and>
   exclude_additional_documentation (readme_config readme_sample) = False \<and>
   exclude_additional_documentation
     (hd (handler_calls (readme_page readme_sample fresh_session repo_only idle_env))) = False"
proof -
  have c: "handler_calls (readme_page readme_sample fresh_session repo_only idle_env) =
     [readme_config readme_sample]"
    by (simp add: readme_page_calls readme_sample_def exists_path_def repo_only_def plain_fs_def Path_repo)
  from c readme_additional_documentation_kept [of readme_sample fresh_session repo_only idle_env]
  show ?thesis by simp
qed

text \<open>
  C8. Whatever the user enters, the numeric and enumerated fields of the configuration
  objects lie in the ranges the widgets declare: \<open>max_workers\<close> in 0..20, \<open>detail_level\<close>
  one of minimal, standard and comprehensive, \<open>max_claude_lines\<close> in 100..2000 and
  \<open>max_agents_lines\<close> in 50..500. This holds of the objects built from a form and so of
  every object passed to a handler.
\<close>

theorem config_fields_in_range:
  "0 \<le> max_workers (analyze_config fa) \<and> max_workers (analyze_config fa) \<le> 20 \<and>
   detail_level (ai_rules_config fg) \<in> {''minimal'', ''standard'', ''comprehensive''} \<and>
   100 \<le> max_claude_lines (ai_rules_config fg) \<and>
   max_claude_lines (ai_rules_config fg) \<le> 2000 \<and>
   50 \<le> max_agents_lines (ai_rules_config fg) \<and>
   max_agents_lines (ai_rules_config fg) \<le> 500 \<and>
   (\<forall>c \<in> set (handler_calls (analyze_page fa s fs ev)).
      0 \<le> max_workers c \<and> max_workers c \<le> 20) \<and>
   (\<forall>c \<in> set (handler_calls (ai_rules_page fg s fs ev)).
      detail_level c \<in> {''minimal'', ''standard'', ''comprehensive''} \<and>
      100 \<le> max_claude_lines c \<and> max_claude_lines c \<le> 2000 \<and>
      50 \<le> max_agents_lines c \<and> max_agents_lines c \<le> 500)"
proof -
  have w: "0 \<le> max_workers (analyze_config fa) \<and> max_workers (analyze_config fa) \<le> 20"
    by (simp add: analyze_config_def number_input_def split: option.splits)
  have d: "detail_level (ai_rules_config fg) \<in> {''minimal'', ''standard'', ''comprehensive''}"
  proof (cases "g_detail_level fg")
    case None
    then show ?thesis by (simp add: ai_rules_config_def selectbox_def)
  next
    case (Some i)
    have "i = 0 \<or> i = 1 \<or> i = 2 \<or> 3 \<le> i" by arith
    with Some show ?thesis by (auto simp add: ai_rules_config_def selectbox_def)
  qed
  have l: "100 \<le> max_claude_lines (ai_rules_config fg) \<and>
           max_claude_lines (ai_rules_config fg) \<le> 2000 \<and>
           50 \<le> max_agents_lines (ai_rules_config fg) \<and>
           max_agents_lines (ai_rules_config fg) \<le> 500"
    by (simp add: ai_rules_config_def number_input_def split: option.splits)
  from w d l show ?thesis
    by (simp add: analyze_page_calls ai_rules_page_calls)
qed

theorem config_fields_in_range_witness:
  "handler_calls (analyze_page (analyze_sample\<lparr>a_max_workers := Some 64\<rparr>) fresh_session
     repo_only idle_env) = [analyze_config (analyze_sample\<lparr>a_max_workers := Some 64\<rparr>)] \<and>
   max_workers (analyze_config (analyze_sample\<lparr>a_max_workers := Some 64\<rparr>)) = 0 \<and>
   handler_calls (ai_rules_page ai_rules_sample fresh_session repo_only idle_env) =
     [ai_rules_config ai_rules_sample] \<and>
   detail_level (ai_rules_config ai_rules_sample) = ''comprehensive'' \<and>
   max_claude_lines (ai_rules_config ai_rules_sample) = 500 \<and>
   max_agents_lines (ai_rules_config ai_rules_sample) = 150 \<and>
   0 \<le> max_workers (hd (handler_calls (analyze_page
     (analyze_sample\<lparr>a_max_workers := Some 64\<rparr>) fresh_session repo_only idle_env))) \<and>
   max_claude_lines (hd (handler_calls (ai_rules_page ai_rules_sample fresh_session
     repo_only idle_env))) \<le> 2000"
proof -
  have a: "handler_calls (analyze_page (analyze_sample\<lparr>a_max_workers := Some 64\<rparr>)
     fresh_session repo_only idle_env) =
     [analyze_config (analyze_sample\<lparr>a_max_workers := Some 64\<rparr>)]"
    by (simp add: analyze_page_calls analyze_sample_def exists_path_def repo_only_def plain_fs_def Path_repo)
  have g: "handler_calls (ai_rules_page ai_rules_sample fresh_session repo_only idle_env) =
     [ai_rules_config ai_rules_sample]"
    by (simp add: ai_rules_page_calls ai_rules_sample_def exists_path_def repo_only_def
        plain_fs_def Path_repo)
  have v: "max_workers (analyze_config (analyze_sample\<lparr>a_max_workers := Some 64\<rparr>)) = 0"
    "detail_level (ai_rules_config ai_rules_sample) = ''comprehensive''"
    "max_claude_lines (ai_rules_config ai_rules_sample) = 500"
    "max_agents_lines (ai_rules_config ai_rules_sample) = 150"
    by (simp_all add: analyze_config_def analyze_sample_def ai_rules_config_def
        ai_rules_sample_def number_input_def selectbox_def)
  from a g v
    config_fields_in_range [of "analyze_sample\<lparr>a_max_workers := Some 64\<rparr>" ai_rules_sample
      fresh_session repo_only idle_env]
  show ?thesis by simp
qed

section \<open>Exceptions from a handler\<close>

lemma analyze_page_Exception:
  "a_button f \<Longrightarrow> exists_path fs (Path (a_repo_path f)) = Inr True \<Longrightarrow>
   AnalyzeHandler_handle ev (analyze_config f) fs = (Some e, fs1) \<Longrightarrow> is_Exception e \<Longrightarrow>
   analyze_page f s fs ev =
     \<lparr>raised = None, session = s\<lparr>analysis_running := False, analysis_complete := False\<rparr>,
      fs_after = fs1,
      rendered = [Error (cross_mark @ '' Analysis failed: '' @ str_exn e)],
      handler_calls = [analyze_config f],
      log_calls = [''Analysis error: '' @ str_exn e]\<rparr>"
  by (simp add: analyze_page_def analyze_except_def run_analysis_def try_log_def
      display_results_def split: option.splits)

lemma readme_page_Exception:
  "r_button f \<Longrightarrow> exists_path fs (Path (r_repo_path f)) = Inr True \<Longrightarrow>
   ReadmeHandler_handle ev (readme_config f) fs = (Some e, fs1) \<Longrightarrow> is_Exception e \<Longrightarrow>
   readme_page f s fs ev =
     \<lparr>raised = None, session = s, fs_after = fs1,
      rendered = [Error (cross_mark @ '' README generation failed: '' @ str_exn e)],
      handler_calls = [readme_config f],
      log_calls = [''README generation error: '' @ str_exn e]\<rparr>"
  by (simp add: readme_page_def run_readme_generation_def except_Exception_def try_log_def
      split: option.splits)

lemma ai_rules_page_Exception:
  "g_button f \<Longrightarrow> exists_path fs (Path (g_repo_path f)) = Inr True \<Longrightarrow>
   AIRulesHandler_handle ev (ai_rules_config f) fs = (Some e, fs1) \<Longrightarrow> is_Exception e \<Longrightarrow>
   ai_rules_page f s fs ev =
     \<lparr>raised = None, session = s, fs_after = fs1,
      rendered = [Error (cross_mark @ '' AI rules generation failed: '' @ str_exn e)],
      handler_calls = [ai_rules_config f],
      log_calls = [''AI rules generation error: '' @ str_exn e]\<rparr>"
  by (simp add: ai_rules_page_def run_ai_rules_generation_def except_Exception_def
      try_log_def split: option.splits)

lemma analyze_page_not_running:
  assumes "\<forall>e. fst (AnalyzeHandler_handle ev (analyze_config f) fs) = Some e \<longrightarrow> is_Exception e"
    and "\<not> analysis_running s"
  shows "\<not> analysis_running (session (analyze_page f s fs ev))"
  using assms
  by (auto simp add: analyze_page_def analyze_except_def path_test_raised_def run_analysis_def
      Let_def split: prod.splits option.splits sum.splits)

text \<open>From a session in which \<open>analysis_running\<close> is absent or false, no series of runs
  whose Analyze handler raises nothing outside \<^verbatim>\<open>Exception\<close> leaves the flag set.\<close>

lemma session_trace_not_running:
  assumes "\<forall>c fs e. fst (AnalyzeHandler_handle ev c fs) = Some e \<longrightarrow> is_Exception e"
    and "analysis_running_key st \<noteq> Some True"
  shows "\<forall>s \<in> set (session_trace ev pgs st fs). \<not> analysis_running s"
  using assms(2)
proof (induction pgs arbitrary: st fs)
  case Nil
  then show ?case by simp
next
  case (Cons pg pgs)
  have start: "\<not> analysis_running (init_session_state st)"
    using Cons.prems by (cases "analysis_running_key st") (auto simp add: init_session_state_def)
  obtain r s fs1 es where m: "main pg st fs ev = (r, s, fs1, es)"
    by (cases "main pg st fs ev") auto
  have here: "\<not> analysis_running s"
  proof (cases pg)
    case (Analysis f)
    with m have "s = session (analyze_page f (init_session_state st) fs ev)"
      by (simp add: main_def Let_def)
    with assms(1) start show ?thesis
      by (simp add: analyze_page_not_running)
  next
    case (README f)
    with m start show ?thesis by (auto simp add: main_def Let_def readme_page_session)
  next
    case (AI_Rules f)
    with m start show ?thesis by (auto simp add: main_def Let_def ai_rules_page_session)
  next
    case About
    with m start show ?thesis by (auto simp add: main_def Let_def)
  qed
  then have "analysis_running_key (store_of s) \<noteq> Some True"
    by (simp add: store_of_def)
  from Cons.IH [OF this] here m show ?case by simp
qed

text \<open>
  C1, as the code has it. On each of the three pages, an exception of Python's class
  \<^verbatim>\<open>Exception\<close> raised by the handler call does not leave the page function: the page
  renders the failure message with the exception's text and passes it to the logger,
  whose own failure is swallowed. An Analyze run that reaches its handler leaves
  \<open>analysis_running\<close> false when the handler returns or raises an \<^verbatim>\<open>Exception\<close>. With
  the flag false on entry (as \<open>init_session_state\<close> and every such run leave it, see
  \<open>session_trace_not_running\<close>), it is false after every run of the Analyze page whose
  handler raises nothing outside \<^verbatim>\<open>Exception\<close>, and after every run of the other two
  pages, which never write it.
\<close>

theorem handler_Exception_caught:
  "(a_button fa \<and> exists_path fs (Path (a_repo_path fa)) = Inr True \<and>
      AnalyzeHandler_handle ev (analyze_config fa) fs = (Some e, fs1) \<and> is_Exception e \<longrightarrow>
      raised (analyze_page fa s fs ev) = None \<and>
      rendered (analyze_page fa s fs ev) =
        [Error (cross_mark @ '' Analysis failed: '' @ str_exn e)] \<and>
      log_calls (analyze_page fa s fs ev) = [''Analysis error: '' @ str_exn e] \<and>
      \<not> analysis_running (session (analyze_page fa s fs ev))) \<and>
   (r_button fr \<and> exists_path fs (Path (r_repo_path fr)) = Inr True \<and>
      ReadmeHandler_handle ev (readme_config fr) fs = (Some e, fs1) \<and> is_Exception e \<longrightarrow>
      raised (readme_page fr s fs ev) = None \<and>
      rendered (readme_page fr s fs ev) =
        [Error (cross_mark @ '' README generation failed: '' @ str_exn e)] \<and>
      log_calls (readme_page fr s fs ev) = [''README generation error: '' @ str_exn e]) \<and>
   (g_button fg \<and> exists_path fs (Path (g_repo_path fg)) = Inr True \<and>
      AIRulesHandler_handle ev (ai_rules_config fg) fs = (Some e, fs1) \<and> is_Exception e \<longrightarrow>
      raised (ai_rules_page fg s fs ev) = None \<and>
      rendered (ai_rules_page fg s fs ev) =
        [Error (cross_mark @ '' AI rules generation failed: '' @ str_exn e)] \<and>
      log_calls (ai_rules_page fg s fs ev) = [''AI rules generation error: '' @ str_exn e]) \<and>
   (a_button fa \<and> exists_path fs (Path (a_repo_path fa)) = Inr True \<and>
      fst (AnalyzeHandler_handle ev (analyze_config fa) fs) = None \<longrightarrow>
      \<not> analysis_running (session (analyze_page fa s fs ev))) \<and>
   (\<not> analysis_running s \<and>
      (\<forall>x. fst (AnalyzeHandler_handle ev (analyze_config fa) fs) = Some x \<longrightarrow> is_Exception x)
      \<longrightarrow> \<not> analysis_running (session (analyze_page fa s fs ev))) \<and>
   (\<not> analysis_running s \<longrightarrow>
      \<not> analysis_running (session (readme_page fr s fs ev)) \<and>
      \<not> analysis_running (session (ai_rules_page fg s fs ev)))"
proof -
  have z: "a_button fa \<and> exists_path fs (Path (a_repo_path fa)) = Inr True \<and>
      fst (AnalyzeHandler_handle ev (analyze_config fa) fs) = None \<longrightarrow>
      \<not> analysis_running (session (analyze_page fa s fs ev))"
    by (auto simp add: analyze_page_def analyze_except_def run_analysis_def exists_path_def
        Let_def split: prod.splits option.splits sum.splits)
  have a: "a_button fa \<and> exists_path fs (Path (a_repo_path fa)) = Inr True \<and>
      AnalyzeHandler_handle ev (analyze_config fa) fs = (Some e, fs1) \<and> is_Exception e \<longrightarrow>
      raised (analyze_page fa s fs ev) = None \<and>
      rendered (analyze_page fa s fs ev) =
        [Error (cross_mark @ '' Analysis failed: '' @ str_exn e)] \<and>
      log_calls (analyze_page fa s fs ev) = [''Analysis error: '' @ str_exn e] \<and>
      \<not> analysis_running (session (analyze_page fa s fs ev))"
    by (simp add: analyze_page_Exception)
  have r: "r_button fr \<and> exists_path fs (Path (r_repo_path fr)) = Inr True \<and>
      ReadmeHandler_handle ev (readme_config fr) fs = (Some e, fs1) \<and> is_Exception e \<longrightarrow>
      raised (readme_page fr s fs ev) = None \<and>
      rendered (readme_page fr s fs ev) =
        [Error (cross_mark @ '' README generation failed: '' @ str_exn e)] \<and>
      log_calls (readme_page fr s fs ev) = [''README generation error: '' @ str_exn e]"
    by (simp add: readme_page_Exception)
  have g: "g_button fg \<and> exists_path fs (Path (g_repo_path fg)) = Inr True \<and>
      AIRulesHandler_handle ev (ai_rules_config fg) fs = (Some e, fs1) \<and> is_Exception e \<longrightarrow>
      raised (ai_rules_page fg s fs ev) = None \<and>
      rendered (ai_rules_page fg s fs ev) =
        [Error (cross_mark @ '' AI rules generation failed: '' @ str_exn e)] \<and>
      log_calls (ai_rules_page fg s fs ev) = [''AI rules generation error: '' @ str_exn e]"
    by (simp add: ai_rules_page_Exception)
  have n: "\<not> analysis_running s \<and>
      (\<forall>x. fst (AnalyzeHandler_handle ev (analyze_config fa) fs) = Some x \<longrightarrow> is_Exception x)
      \<longrightarrow> \<not> analysis_running (session (analyze_page fa s fs ev))"
    using analyze_page_not_running [of ev fa fs s] by blast
  have k: "\<not> analysis_running s \<longrightarrow>
      \<not> analysis_running (session (readme_page fr s fs ev)) \<and>
      \<not> analysis_running (session (ai_rules_page fg s fs ev))"
    by (simp add: readme_page_session ai_rules_page_session)
  from a r g z n k show ?thesis by blast
qed

theorem handler_Exception_caught_witness:
  "\<not> analysis_running fresh_session \<and>
   Logger_error failing_env ''Analysis error: boom'' = Some (Exception ''log closed'') \<and>
   raised (analyze_page analyze_sample fresh_session repo_only failing_env) = None \<and>
   rendered (analyze_page analyze_sample fresh_session repo_only failing_env) =
     [Error (cross_mark @ '' Analysis failed: boom'')] \<and>
   log_calls (analyze_page analyze_sample fresh_session repo_only failing_env) =
     [''Analysis error: boom''] \<and>
   \<not> analysis_running (session (analyze_page analyze_sample fresh_session repo_only failing_env)) \<and>
   raised (readme_page readme_sample fresh_session repo_only failing_env) = None \<and>
   rendered (readme_page readme_sample fresh_session repo_only failing_env) =
     [Error (cross_mark @ '' README generation failed: boom'')] \<and>
   log_calls (readme_page readme_sample fresh_session repo_only failing_env) =
     [''README generation error: boom''] \<and>
   \<not> analysis_running (session (readme_page readme_sample fresh_session repo_only failing_env)) \<and>
   raised (ai_rules_page ai_rules_sample fresh_session repo_only failing_env) = None \<and>
   rendered (ai_rules_page ai_rules_sample fresh_session repo_only failing_env) =
     [Error (cross_mark @ '' AI rules generation failed: boom'')] \<and>
   log_calls (ai_rules_page ai_rules_sample fresh_session repo_only failing_env) =
     [''AI rules generation error: boom''] \<and>
   \<not> analysis_running
     (session (ai_rules_page ai_rules_sample fresh_session repo_only failing_env))"
proof -
  have s: "\<not> analysis_running fresh_session"
    by (simp add: fresh_session_def init_session_state_def)
  have l: "Logger_error failing_env ''Analysis error: boom'' = Some (Exception ''log closed'')"
    by (simp add: failing_env_def)
  have p: "exists_path repo_only (Path ''/repo'') = Inr True"
    by (simp add: repo_only_paths Path_repo)
  have f: "a_button analyze_sample" "a_repo_path analyze_sample = ''/repo''"
    "r_button readme_sample" "r_repo_path readme_sample = ''/repo''"
    "g_button ai_rules_sample" "g_repo_path ai_rules_sample = ''/repo''"
    by (simp_all add: analyze_sample_def readme_sample_def ai_rules_sample_def)
  have h: "AnalyzeHandler_handle failing_env (analyze_config analyze_sample) repo_only =
      (Some (Exception ''boom''), repo_only)"
    "ReadmeHandler_handle failing_env (readme_config readme_sample) repo_only =
      (Some (Exception ''boom''), repo_only)"
    "AIRulesHandler_handle failing_env (ai_rules_config ai_rules_sample) repo_only =
      (Some (Exception ''boom''), repo_only)"
    by (simp_all add: failing_env_def)
  from s l p f h
    handler_Exception_caught [of analyze_sample repo_only failing_env "Exception ''boom''"
      repo_only fresh_session readme_sample ai_rules_sample]
  show ?thesis by simp
qed

text \<open>
  C1, as the claim states it, fails: an exception outside \<^verbatim>\<open>Exception\<close> raised by the
  Analyze handler (here a \<^verbatim>\<open>SystemExit\<close> with code 1) is not taken by
  \<^verbatim>\<open>except Exception\<close>. It leaves the page function, and the session keeps
  \<open>analysis_running\<close> set.
\<close>

theorem handler_exit_propagates:
  "a_button analyze_sample \<and>
   exists_path repo_only (Path (a_repo_path analyze_sample)) = Inr True \<and>
   \<not> analysis_running fresh_session \<and>
   fst (AnalyzeHandler_handle exiting_env (analyze_config analyze_sample) repo_only) =
     Some (BaseException ''1'') \<and>
   raised (analyze_page analyze_sample fresh_session repo_only exiting_env) =
     Some (BaseException ''1'') \<and>
   rendered (analyze_page analyze_sample fresh_session repo_only exiting_env) = [] \<and>
   log_calls (analyze_page analyze_sample fresh_session repo_only exiting_env) = [] \<and>
   analysis_running (session (analyze_page analyze_sample fresh_session repo_only exiting_env))"
  by (simp add: analyze_page_def analyze_except_def analyze_sample_def exiting_env_def
      run_analysis_def exists_path_def repo_only_def plain_fs_def Path_repo fresh_session_def
      init_session_state_def)

section \<open>What a successful run shows\<close>

text \<open>
  C3 does not hold of the code. After an Analyze run on \<^verbatim>\<open>/repo\<close> has stored its
  generated file, a run on \<^verbatim>\<open>/other\<close> whose handler returns without creating
  \<^verbatim>\<open>/other/.ai/docs\<close> skips the update of \<open>generated_files\<close> and displays the file of the
  earlier run, though there is no markdown file under \<^verbatim>\<open>/other/.ai/docs\<close>.
\<close>

theorem stale_generated_files_displayed:
  "session (analyze_page analyze_sample fresh_session repo_only writing_env) = analyzed_session \<and>
   fst (AnalyzeHandler_handle idle_env (analyze_config other_form) two_repos) = None \<and>
   raised (analyze_page other_form analyzed_session two_repos idle_env) = None \<and>
   fs_after (analyze_page other_form analyzed_session two_repos idle_env) = two_repos \<and>
   exists_path two_repos (Path ''/other'') = Inr True \<and>
   exists_path two_repos (joinpath (joinpath (Path ''/other'') ''.ai'') ''docs'') = Inr False \<and>
   glob_md two_repos (joinpath (joinpath (Path ''/other'') ''.ai'') ''docs'') = [] \<and>
   generated_files (session (analyze_page other_form analyzed_session two_repos idle_env)) =
     [[''/'', ''repo'', ''.ai'', ''docs'', ''api.md'']] \<and>
   rendered (analyze_page other_form analyzed_session two_repos idle_env) =
     [Success (check_mark @ '' Analysis completed successfully!''),
      Markdown (''### '' @ page_icon @ '' Generated Analysis Files''),
      Expander (memo_icon @ '' api.md'')
        [Markdown ''# API'',
         Download_button (down_arrow @ '' Download'') ''# API'' ''api.md'' ''text/markdown'']]"
proof -
  have po: "Path ''/other'' = [''/'', ''other'']"
    by (simp add: Path_def)
  have first: "session (analyze_page analyze_sample fresh_session repo_only writing_env)
      = analyzed_session"
    by (simp add: analyze_page_def analyze_sample_def fresh_session_def init_session_state_def
        repo_only_def plain_fs_def writing_env_def run_analysis_def exists_path_def Path_repo
        joinpath_def
        documented_repo_def glob_md_def ends_with_def display_results_def read_text_def
        analyzed_session_def)
  have second: "analyze_page other_form analyzed_session two_repos idle_env =
     \<lparr>raised = None, session = analyzed_session, fs_after = two_repos,
      rendered =
        [Success (check_mark @ '' Analysis completed successfully!''),
         Markdown (''### '' @ page_icon @ '' Generated Analysis Files''),
         Expander (memo_icon @ '' api.md'')
           [Markdown ''# API'',
            Download_button (down_arrow @ '' Download'') ''# API'' ''api.md''
              ''text/markdown'']],
      handler_calls = [analyze_config other_form], log_calls = []\<rparr>"
    by (simp add: analyze_page_def other_form_def analyze_sample_def idle_env_def
        run_analysis_def exists_path_def po joinpath_def two_repos_def documented_repo_def
        plain_fs_def
        display_results_def read_text_def analyzed_session_def path_name_def)
  have rest: "fst (AnalyzeHandler_handle idle_env (analyze_config other_form) two_repos) = None"
    "exists_path two_repos (Path ''/other'') = Inr True"
    "exists_path two_repos (joinpath (joinpath (Path ''/other'') ''.ai'') ''docs'') = Inr False"
    "glob_md two_repos (joinpath (joinpath (Path ''/other'') ''.ai'') ''docs'') = []"
    by (simp_all add: idle_env_def exists_path_def po joinpath_def two_repos_def
        documented_repo_def plain_fs_def glob_md_def)
  from first second rest show ?thesis
    by (simp add: analyzed_session_def)
qed

text \<open>
  C4, as the code has it. When the Readme handler returns: if a regular file that opens
  and decodes is at \<^verbatim>\<open><repo>/README.md\<close> after the call, the page renders the success
  message, the heading, the text \<^verbatim>\<open>read_text()\<close> returns for the file (its contents with
  every line end turned into \<^verbatim>\<open>\n\<close>) and a download button carrying that text; if the
  existence test finds nothing at that path, it renders only the success message. A
  download is offered if and only if such a readable regular file is there.
\<close>

theorem readme_text_shown:
  "r_button f \<and> exists_path fs (Path (r_repo_path f)) = Inr True \<and>
   ReadmeHandler_handle ev (readme_config f) fs = (None, fs1) \<longrightarrow>
     (\<forall>cs. stat_error fs1 (joinpath (Path (r_repo_path f)) ''README.md'') = None \<and>
           nodes fs1 (joinpath (Path (r_repo_path f)) ''README.md'') = Some (File cs) \<longrightarrow>
        raised (readme_page f s fs ev) = None \<and>
        rendered (readme_page f s fs ev) =
          [Success (check_mark @ '' README generated successfully!''),
           Markdown (''### '' @ page_icon @ '' Generated README.md''),
           Markdown (universal_newlines cs),
           Download_button (down_arrow @ '' Download README.md'') (universal_newlines cs)
             ''README.md'' ''text/markdown'']) \<and>
     (exists_path fs1 (joinpath (Path (r_repo_path f)) ''README.md'') = Inr False \<longrightarrow>
        raised (readme_page f s fs ev) = None \<and>
        rendered (readme_page f s fs ev) =
          [Success (check_mark @ '' README generated successfully!'')]) \<and>
     ((\<exists>l t n m. Download_button l t n m \<in> set (rendered (readme_page f s fs ev))) =
        readable fs1 (joinpath (Path (r_repo_path f)) ''README.md''))"
proof (intro impI)
  assume asm: "r_button f \<and> exists_path fs (Path (r_repo_path f)) = Inr True \<and>
    ReadmeHandler_handle ev (readme_config f) fs = (None, fs1)"
  let ?p = "joinpath (Path (r_repo_path f)) ''README.md''"
  let ?r = "readme_page f s fs ev"
  have page: "?r =
     (case show_readme fs1 ?p of
        (None, es) \<Rightarrow>
          \<lparr>raised = None, session = s, fs_after = fs1,
           rendered = Success (check_mark @ '' README generated successfully!'') # es,
           handler_calls = [readme_config f], log_calls = []\<rparr>
      | (Some e, es) \<Rightarrow>
          except_Exception '' README generation failed: '' ''README generation error: ''
            ev s fs1 (readme_config f)
            (Success (check_mark @ '' README generated successfully!'') # es) e)"
    using asm by (simp add: readme_page_def run_readme_generation_def Let_def)
  have shown: "\<forall>cs. stat_error fs1 ?p = None \<and> nodes fs1 ?p = Some (File cs) \<longrightarrow>
        raised ?r = None \<and>
        rendered ?r =
          [Success (check_mark @ '' README generated successfully!''),
           Markdown (''### '' @ page_icon @ '' Generated README.md''),
           Markdown (universal_newlines cs),
           Download_button (down_arrow @ '' Download README.md'') (universal_newlines cs)
             ''README.md'' ''text/markdown'']"
    by (simp add: page show_readme_def exists_path_def read_text_def)
  have missing: "exists_path fs1 ?p = Inr False \<longrightarrow>
        raised ?r = None \<and>
        rendered ?r = [Success (check_mark @ '' README generated successfully!'')]"
    by (simp add: page show_readme_def)
  have offered: "(\<exists>l t n m. Download_button l t n m \<in> set (rendered ?r)) = readable fs1 ?p"
    by (auto simp add: page show_readme_def exists_path_def read_text_def readable_def
        except_Exception_def split: option.splits node.splits)
  from shown missing offered show
    "(\<forall>cs. stat_error fs1 ?p = None \<and> nodes fs1 ?p = Some (File cs) \<longrightarrow>
        raised ?r = None \<and>
        rendered ?r =
          [Success (check_mark @ '' README generated successfully!''),
           Markdown (''### '' @ page_icon @ '' Generated README.md''),
           Markdown (universal_newlines cs),
           Download_button (down_arrow @ '' Download README.md'') (universal_newlines cs)
             ''README.md'' ''text/markdown'']) \<and>
     (exists_path fs1 ?p = Inr False \<longrightarrow>
        raised ?r = None \<and>
        rendered ?r = [Success (check_mark @ '' README generated successfully!'')]) \<and>
     ((\<exists>l t n m. Download_button l t n m \<in> set (rendered ?r)) = readable fs1 ?p)"
    by blast
qed

theorem readme_text_shown_witness:
  "r_button readme_sample \<and>
   exists_path repo_only (Path (r_repo_path readme_sample)) = Inr True \<and>
   ReadmeHandler_handle (leaving crlf_repo) (readme_config readme_sample) repo_only =
     (None, crlf_repo) \<and>
   stat_error crlf_repo (joinpath (Path (r_repo_path readme_sample)) ''README.md'') = None \<and>
   nodes crlf_repo (joinpath (Path (r_repo_path readme_sample)) ''README.md'') =
     Some (File [CHR ''a'', CHR 0x0D, CHR 0x0A, CHR ''b'']) \<and>
   rendered (readme_page readme_sample fresh_session repo_only (leaving crlf_repo)) =
     [Success (check_mark @ '' README generated successfully!''),
      Markdown (''### '' @ page_icon @ '' Generated README.md''),
      Markdown [CHR ''a'', CHR 0x0A, CHR ''b''],
      Download_button (down_arrow @ '' Download README.md'') [CHR ''a'', CHR 0x0A, CHR ''b'']
        ''README.md'' ''text/markdown''] \<and>
   ReadmeHandler_handle idle_env (readme_config readme_sample) repo_only = (None, repo_only) \<and>
   exists_path repo_only (joinpath (Path (r_repo_path readme_sample)) ''README.md'') =
     Inr False \<and>
   rendered (readme_page readme_sample fresh_session repo_only idle_env) =
     [Success (check_mark @ '' README generated successfully!'')]"
proof -
  have f: "r_button readme_sample" "r_repo_path readme_sample = ''/repo''"
    by (simp_all add: readme_sample_def)
  have p: "exists_path repo_only (Path ''/repo'') = Inr True"
    "exists_path repo_only (joinpath (Path ''/repo'') ''README.md'') = Inr False"
    "stat_error crlf_repo (joinpath (Path ''/repo'') ''README.md'') = None"
    "nodes crlf_repo (joinpath (Path ''/repo'') ''README.md'') =
       Some (File [CHR ''a'', CHR 0x0D, CHR 0x0A, CHR ''b''])"
    by (simp_all add: exists_path_def repo_only_def crlf_repo_def plain_fs_def Path_repo
        joinpath_def)
  have h: "ReadmeHandler_handle (leaving crlf_repo) (readme_config readme_sample) repo_only =
     (None, crlf_repo)"
    "ReadmeHandler_handle idle_env (readme_config readme_sample) repo_only = (None, repo_only)"
    by (simp_all add: leaving_def idle_env_def)
  from f p h
    readme_text_shown [of readme_sample repo_only "leaving crlf_repo" crlf_repo fresh_session]
    readme_text_shown [of readme_sample repo_only idle_env repo_only fresh_session]
  show ?thesis by simp
qed

text \<open>
  C4, as the claim states it, fails. A \<^verbatim>\<open>README.md\<close> with the contents
  \<^verbatim>\<open>a\r\nb\<close> is displayed and offered for download as \<^verbatim>\<open>a\nb\<close>, which is not its
  verbatim contents. A \<^verbatim>\<open>README.md\<close> that exists after the call as a directory, or as
  a file that does not decode, passes the existence test, and the page renders the
  heading and a failure message but no contents.
\<close>

theorem readme_not_verbatim:
  "nodes crlf_repo (joinpath (Path (r_repo_path readme_sample)) ''README.md'') =
     Some (File [CHR ''a'', CHR 0x0D, CHR 0x0A, CHR ''b'']) \<and>
   rendered (readme_page readme_sample fresh_session repo_only (leaving crlf_repo)) =
     [Success (check_mark @ '' README generated successfully!''),
      Markdown (''### '' @ page_icon @ '' Generated README.md''),
      Markdown [CHR ''a'', CHR 0x0A, CHR ''b''],
      Download_button (down_arrow @ '' Download README.md'') [CHR ''a'', CHR 0x0A, CHR ''b'']
        ''README.md'' ''text/markdown''] \<and>
   exists_path readme_dir_repo (joinpath (Path (r_repo_path readme_sample)) ''README.md'') =
     Inr True \<and>
   raised (readme_page readme_sample fresh_session repo_only (leaving readme_dir_repo)) = None \<and>
   rendered (readme_page readme_sample fresh_session repo_only (leaving readme_dir_repo)) =
     [Success (check_mark @ '' README generated successfully!''),
      Markdown (''### '' @ page_icon @ '' Generated README.md''),
      Error (cross_mark @ '' README generation failed: [Errno 21] Is a directory: ''
             @ quoted ''/repo/README.md'')] \<and>
   exists_path undecodable_repo (joinpath (Path (r_repo_path readme_sample)) ''README.md'') =
     Inr True \<and>
   rendered (readme_page readme_sample fresh_session repo_only (leaving undecodable_repo)) =
     [Success (check_mark @ '' README generated successfully!''),
      Markdown (''### '' @ page_icon @ '' Generated README.md''),
      Error (cross_mark
             @ '' README generation failed: codec cannot decode byte 0xff in position 0'')]"
  by (simp add: readme_page_def readme_sample_def leaving_def run_readme_generation_def
      show_readme_def exists_path_def read_text_def repo_only_def crlf_repo_def
      readme_dir_repo_def undecodable_repo_def plain_fs_def Path_repo joinpath_def
      except_Exception_def try_log_def str_path_def)

section \<open>The AI Rules artifacts\<close>

lemma read_text_readable: "readable fs p \<Longrightarrow> read_text fs p = Inr (file_text fs p)"
  by (simp add: readable_def read_text_def file_text_def split: option.splits node.splits)

lemma display_rule_files_readable:
  "list_all (readable fs) ps \<Longrightarrow>
   display_rule_files fs ps = (None, concat (map (rule_file_entry fs) ps))"
  by (induction ps) (simp_all add: read_text_readable rule_file_entry_def)

lemma display_artifact_view:
  assumes "reads_succeed fs file_path"
  shows "display_artifact fs (file_path, display_name) =
           (None, artifact_view fs file_path display_name)"
proof (cases "nodes fs file_path")
  case None
  with assms show ?thesis
    by (simp add: reads_succeed_def exists_path_def artifact_view_def present_def)
next
  case (Some nd)
  show ?thesis
  proof (cases nd)
    case (File cs)
    with Some assms show ?thesis
      by (simp add: reads_succeed_def exists_path_def artifact_content_def is_file_def
          is_dir_def read_text_def artifact_view_def file_text_def present_def
          directory_def)
  next
    case (Unreadable m)
    with Some assms show ?thesis by (simp add: reads_succeed_def)
  next
    case (Dir ns)
    with Some assms have "list_all (readable fs) (glob_md fs file_path)"
      by (simp add: reads_succeed_def)
    with Some Dir assms show ?thesis
      by (simp add: reads_succeed_def exists_path_def artifact_content_def is_file_def
          is_dir_def artifact_view_def display_rule_files_readable present_def
          directory_def)
  qed
qed

lemma display_artifacts_view:
  "\<forall>x \<in> set xs. reads_succeed fs (fst x) \<Longrightarrow>
   display_artifacts fs xs = (None, concat (map (\<lambda>(p, n). artifact_view fs p n) xs))"
proof (induction xs)
  case Nil
  then show ?case by simp
next
  case (Cons x xs)
  obtain p n where x: "x = (p, n)" by (cases x) auto
  with Cons.prems have "display_artifact fs x = (None, artifact_view fs p n)"
    by (simp add: display_artifact_view del: display_artifact.simps)
  with Cons x show ?case by (simp del: display_artifact.simps)
qed

lemma expander_in_view:
  "Expander l body \<in> set (artifact_view fs p n) \<Longrightarrow>
   l = memo_icon @ CHR '' '' # n \<and> nodes fs p \<noteq> None"
  by (auto simp add: artifact_view_def present_def split: if_splits)

lemma view_has_expander:
  "nodes fs p \<noteq> None \<Longrightarrow>
   \<exists>body. Expander (memo_icon @ CHR '' '' # n) body \<in> set (artifact_view fs p n)"
  by (auto simp add: artifact_view_def present_def)

lemma found_when_stat_works:
  "reads_succeed fs p \<Longrightarrow> (exists_path fs p = Inr True) = (nodes fs p \<noteq> None)"
  by (simp add: reads_succeed_def exists_path_def)

text \<open>
  C5, as the code has it. When the AI Rules handler returns and every read the page
  makes succeeds (on each of the three locations \<^verbatim>\<open>stat\<close> works, a regular file there
  opens and decodes, and every markdown entry of a directory there is a regular file
  that opens and decodes), the page renders, after the success message and the heading,
  the three locations in order as the specification describes them: each location has
  an expander if and only if it exists after the call, and a directory's expander lists
  its markdown members instead of showing file text.
\<close>

theorem artifacts_shown_iff_exist:
  "g_button f \<and> exists_path fs (Path (g_repo_path f)) = Inr True \<and>
   AIRulesHandler_handle ev (ai_rules_config f) fs = (None, fs1) \<and>
   (\<forall>x \<in> set (files_to_display (Path (g_repo_path f))). reads_succeed fs1 (fst x)) \<longrightarrow>
     raised (ai_rules_page f s fs ev) = None \<and>
     rendered (ai_rules_page f s fs ev) =
       Success (check_mark @ '' AI rules generated successfully!'')
       # Markdown (''### '' @ page_icon @ '' Generated Files'')
       # concat (map (\<lambda>(p, n). artifact_view fs1 p n)
                   (files_to_display (Path (g_repo_path f)))) \<and>
     (\<forall>x \<in> set (files_to_display (Path (g_repo_path f))).
        (\<exists>body. Expander (memo_icon @ '' '' @ snd x) body
                  \<in> set (rendered (ai_rules_page f s fs ev)))
          = (exists_path fs1 (fst x) = Inr True)) \<and>
     (\<forall>x \<in> set (files_to_display (Path (g_repo_path f))).
        is_dir fs1 (fst x) = Inr True \<longrightarrow>
          Expander (memo_icon @ '' '' @ snd x)
            (Info (''Directory created: '' @ str_path (fst x))
             # concat (map (rule_file_entry fs1) (glob_md fs1 (fst x))))
          \<in> set (rendered (ai_rules_page f s fs ev)))"
proof (intro impI)
  assume asm: "g_button f \<and> exists_path fs (Path (g_repo_path f)) = Inr True \<and>
   AIRulesHandler_handle ev (ai_rules_config f) fs = (None, fs1) \<and>
   (\<forall>x \<in> set (files_to_display (Path (g_repo_path f))). reads_succeed fs1 (fst x))"
  let ?r = "ai_rules_page f s fs ev"
  let ?xs = "files_to_display (Path (g_repo_path f))"
  from asm have d: "display_artifacts fs1 ?xs =
      (None, concat (map (\<lambda>(p, n). artifact_view fs1 p n) ?xs))"
    by (simp add: display_artifacts_view)
  with asm have page: "raised ?r = None \<and>
     rendered ?r =
       Success (check_mark @ '' AI rules generated successfully!'')
       # Markdown (''### '' @ page_icon @ '' Generated Files'')
       # concat (map (\<lambda>(p, n). artifact_view fs1 p n) ?xs)"
    by (simp add: ai_rules_page_def run_ai_rules_generation_def)
  let ?c = "joinpath (Path (g_repo_path f)) ''CLAUDE.md''"
  let ?a = "joinpath (Path (g_repo_path f)) ''AGENTS.md''"
  let ?u = "joinpath (joinpath (Path (g_repo_path f)) ''.cursor'') ''rules''"
  have mem: "Expander l body \<in> set (rendered ?r) \<longleftrightarrow>
      Expander l body \<in> set (artifact_view fs1 ?c ''CLAUDE.md'') \<or>
      Expander l body \<in> set (artifact_view fs1 ?a ''AGENTS.md'') \<or>
      Expander l body \<in> set (artifact_view fs1 ?u ''Cursor Rules'')" for l body
    using page by (simp add: files_to_display_def)
  have shown: "\<forall>x \<in> set ?xs.
      (\<exists>body. Expander (memo_icon @ '' '' @ snd x) body \<in> set (rendered ?r))
        = (exists_path fs1 (fst x) = Inr True)"
  proof (intro ballI)
    fix x
    assume in_xs: "x \<in> set ?xs"
    then have x: "x = (?c, ''CLAUDE.md'') \<or> x = (?a, ''AGENTS.md'') \<or> x = (?u, ''Cursor Rules'')"
      by (simp add: files_to_display_def)
    from asm in_xs have found: "(exists_path fs1 (fst x) = Inr True) = (nodes fs1 (fst x) \<noteq> None)"
      by (simp add: found_when_stat_works)
    show "(\<exists>body. Expander (memo_icon @ '' '' @ snd x) body \<in> set (rendered ?r))
        = (exists_path fs1 (fst x) = Inr True)"
    proof
      assume "\<exists>body. Expander (memo_icon @ '' '' @ snd x) body \<in> set (rendered ?r)"
      then obtain body where "Expander (memo_icon @ '' '' @ snd x) body \<in> set (rendered ?r)" ..
      with mem x have "nodes fs1 (fst x) \<noteq> None"
        by (auto dest!: expander_in_view)
      with found show "exists_path fs1 (fst x) = Inr True" by simp
    next
      assume "exists_path fs1 (fst x) = Inr True"
      with found have "nodes fs1 (fst x) \<noteq> None" by simp
      from view_has_expander [OF this, of "snd x"] obtain body
        where "Expander (memo_icon @ CHR '' '' # snd x) body
                 \<in> set (artifact_view fs1 (fst x) (snd x))" ..
      with x have "Expander (memo_icon @ '' '' @ snd x) body \<in> set (rendered ?r)"
        by (auto simp add: mem)
      then show "\<exists>body. Expander (memo_icon @ '' '' @ snd x) body \<in> set (rendered ?r)" ..
    qed
  qed
  have listed: "\<forall>x \<in> set ?xs. is_dir fs1 (fst x) = Inr True \<longrightarrow>
      Expander (memo_icon @ '' '' @ snd x)
        (Info (''Directory created: '' @ str_path (fst x))
         # concat (map (rule_file_entry fs1) (glob_md fs1 (fst x))))
      \<in> set (rendered ?r)"
    using page
    by (auto simp add: files_to_display_def artifact_view_def is_dir_def present_def
        directory_def split: option.splits node.splits)
  from page shown listed show "raised ?r = None \<and>
     rendered ?r =
       Success (check_mark @ '' AI rules generated successfully!'')
       # Markdown (''### '' @ page_icon @ '' Generated Files'')
       # concat (map (\<lambda>(p, n). artifact_view fs1 p n) ?xs) \<and>
     (\<forall>x \<in> set ?xs.
        (\<exists>body. Expander (memo_icon @ '' '' @ snd x) body \<in> set (rendered ?r))
          = (exists_path fs1 (fst x) = Inr True)) \<and>
     (\<forall>x \<in> set ?xs. is_dir fs1 (fst x) = Inr True \<longrightarrow>
        Expander (memo_icon @ '' '' @ snd x)
          (Info (''Directory created: '' @ str_path (fst x))
           # concat (map (rule_file_entry fs1) (glob_md fs1 (fst x))))
        \<in> set (rendered ?r))"
    by blast
qed

theorem artifacts_shown_iff_exist_witness:
  "g_button ai_rules_sample \<and>
   exists_path repo_only (Path (g_repo_path ai_rules_sample)) = Inr True \<and>
   AIRulesHandler_handle writing_env (ai_rules_config ai_rules_sample) repo_only =
     (None, documented_repo) \<and>
   reads_succeed documented_repo [''/'', ''repo'', ''CLAUDE.md''] \<and>
   reads_succeed documented_repo [''/'', ''repo'', ''AGENTS.md''] \<and>
   reads_succeed documented_repo [''/'', ''repo'', ''.cursor'', ''rules''] \<and>
   glob_md documented_repo [''/'', ''repo'', ''.cursor'', ''rules''] =
     [[''/'', ''repo'', ''.cursor'', ''rules'', ''style.md'']] \<and>
   exists_path documented_repo [''/'', ''repo'', ''CLAUDE.md''] = Inr True \<and>
   exists_path documented_repo [''/'', ''repo'', ''AGENTS.md''] = Inr False \<and>
   is_dir documented_repo [''/'', ''repo'', ''.cursor'', ''rules''] = Inr True \<and>
   raised (ai_rules_page ai_rules_sample fresh_session repo_only writing_env) = None \<and>
   rendered (ai_rules_page ai_rules_sample fresh_session repo_only writing_env) =
     [Success (check_mark @ '' AI rules generated successfully!''),
      Markdown (''### '' @ page_icon @ '' Generated Files''),
      Expander (memo_icon @ '' CLAUDE.md'')
        [Markdown ''Be brief.'',
         Download_button (down_arrow @ '' Download CLAUDE.md'') ''Be brief.'' ''CLAUDE.md''
           ''text/markdown''],
      Expander (memo_icon @ '' Cursor Rules'')
        [Info ''Directory created: /repo/.cursor/rules'',
         Markdown ''**style.md**'',
         Code ''Use tabs.'']]"
proof -
  have f: "g_button ai_rules_sample" "g_repo_path ai_rules_sample = ''/repo''"
    by (simp_all add: ai_rules_sample_def)
  have p: "exists_path repo_only (Path ''/repo'') = Inr True"
    by (simp add: repo_only_paths Path_repo)
  have h: "AIRulesHandler_handle writing_env (ai_rules_config ai_rules_sample) repo_only =
     (None, documented_repo)"
    by (simp add: writing_env_def)
  have g: "glob_md documented_repo [''/'', ''repo'', ''CLAUDE.md''] = []"
    "glob_md documented_repo [''/'', ''repo'', ''AGENTS.md''] = []"
    "glob_md documented_repo [''/'', ''repo'', ''.cursor'', ''rules''] =
       [[''/'', ''repo'', ''.cursor'', ''rules'', ''style.md'']]"
    by (simp_all add: glob_md_def documented_repo_def plain_fs_def ends_with_def joinpath_def)
  have n: "nodes documented_repo [''/'', ''repo'', ''CLAUDE.md''] = Some (File ''Be brief.'')"
    "nodes documented_repo [''/'', ''repo'', ''AGENTS.md''] = None"
    "nodes documented_repo [''/'', ''repo'', ''.cursor'', ''rules'']
       = Some (Dir [''style.md'', ''todo.txt''])"
    "nodes documented_repo [''/'', ''repo'', ''.cursor'', ''rules'', ''style.md'']
       = Some (File ''Use tabs.'')"
    "stat_error documented_repo = (\<lambda>p. None)"
    by (simp_all add: documented_repo_def plain_fs_def)
  have k: "reads_succeed documented_repo [''/'', ''repo'', ''CLAUDE.md'']"
    "reads_succeed documented_repo [''/'', ''repo'', ''AGENTS.md'']"
    "reads_succeed documented_repo [''/'', ''repo'', ''.cursor'', ''rules'']"
    "exists_path documented_repo [''/'', ''repo'', ''CLAUDE.md''] = Inr True"
    "exists_path documented_repo [''/'', ''repo'', ''AGENTS.md''] = Inr False"
    "is_dir documented_repo [''/'', ''repo'', ''.cursor'', ''rules''] = Inr True"
    by (simp_all add: reads_succeed_def readable_def exists_path_def is_dir_def g n)
  have t: "file_text documented_repo [''/'', ''repo'', ''CLAUDE.md''] = ''Be brief.''"
    "file_text documented_repo [''/'', ''repo'', ''.cursor'', ''rules'', ''style.md'']
       = ''Use tabs.''"
    by (simp_all add: file_text_def n)
  have readable: "\<forall>x \<in> set (files_to_display (Path ''/repo'')).
      reads_succeed documented_repo (fst x)"
    using k by (simp add: files_to_display_def Path_repo joinpath_def)
  from f p h readable
    artifacts_shown_iff_exist [of ai_rules_sample repo_only writing_env documented_repo
      fresh_session]
  have "raised (ai_rules_page ai_rules_sample fresh_session repo_only writing_env) = None \<and>
     rendered (ai_rules_page ai_rules_sample fresh_session repo_only writing_env) =
       Success (check_mark @ '' AI rules generated successfully!'')
       # Markdown (''### '' @ page_icon @ '' Generated Files'')
       # concat (map (\<lambda>(p, n). artifact_view documented_repo p n)
                   (files_to_display (Path ''/repo'')))"
    by simp
  with f p h g k t n show ?thesis
    by (simp add: files_to_display_def Path_repo joinpath_def artifact_view_def present_def
        directory_def rule_file_entry_def path_name_def str_path_def)
qed

text \<open>
  C5, as the claim states it, fails: when \<^verbatim>\<open>CLAUDE.md\<close> is a directory with an entry
  \<^verbatim>\<open>notes.md\<close> that is itself a directory, reading that entry raises inside the
  \<^verbatim>\<open>try\<close> block, the loop over the locations ends there, and \<^verbatim>\<open>AGENTS.md\<close>, which
  exists, is not displayed.
\<close>

theorem existing_artifact_not_displayed:
  "g_button ai_rules_sample \<and>
   exists_path repo_only (Path (g_repo_path ai_rules_sample)) = Inr True \<and>
   AIRulesHandler_handle nesting_env (ai_rules_config ai_rules_sample) repo_only =
     (None, nested_repo) \<and>
   exists_path nested_repo (joinpath (Path (g_repo_path ai_rules_sample)) ''AGENTS.md'')
     = Inr True \<and>
   raised (ai_rules_page ai_rules_sample fresh_session repo_only nesting_env) = None \<and>
   rendered (ai_rules_page ai_rules_sample fresh_session repo_only nesting_env) =
     [Success (check_mark @ '' AI rules generated successfully!''),
      Markdown (''### '' @ page_icon @ '' Generated Files''),
      Expander (memo_icon @ '' CLAUDE.md'')
        [Info ''Directory created: /repo/CLAUDE.md'', Markdown ''**notes.md**''],
      Error (cross_mark @ '' AI rules generation failed: [Errno 21] Is a directory: ''
             @ quoted ''/repo/CLAUDE.md/notes.md'')]"
  by (simp add: ai_rules_page_def ai_rules_sample_def nesting_env_def idle_env_def
      run_ai_rules_generation_def exists_path_def repo_only_def plain_fs_def Path_repo
      joinpath_def nested_repo_def files_to_display_def artifact_content_def is_file_def
      is_dir_def glob_md_def ends_with_def read_text_def except_Exception_def try_log_def
      path_name_def str_path_def)

end
